theory Spec2Isabelle
  imports Main "HOL-Library.Sublist"
begin

section \<open>The parcel store of go-db-sql-final\<close>

text \<open>
  The file \<open>parcel.go\<close> is a thin layer over Go's \<open>database/sql\<close>: every method of
  \<open>ParcelStore\<close> sends one SQL statement to the table \<open>parcel\<close> and hands the outcome
  back. The model has two layers. The lower one is the storage backend: the table, the
  six statements the code sends, and the calls of \<open>database/sql\<close> the code makes
  (\<open>Exec\<close>, \<open>LastInsertId\<close>, \<open>Query\<close>, \<open>QueryRow\<close>, \<open>Scan\<close>). The upper one is the code of
  \<open>parcel.go\<close>, function by function, with every early return as a branch.

  A Go function returning \<open>(T, error)\<close> is a pair \<open>T \<times> error option\<close>, where \<open>None\<close> is
  \<open>nil\<close>: the code returns both components on its error paths, and
  \<open>GetByClient\<close> returns a non-empty slice next to a non-nil error. A method returns
  the handle as well, with the database as the method left it.
\<close>

subsection \<open>Data\<close>

text \<open>
  Modelled from the spec: the struct \<open>Parcel\<close> is declared outside \<open>parcel.go\<close>. Its
  fields and their types are the ones the code scans into and binds
  (\<open>p.Number\<close>, \<open>p.Client\<close>, \<open>p.Status\<close>, \<open>p.Address\<close>, \<open>p.CreatedAt\<close>) and section 3 of
  the specification lists. Go's \<open>int\<close> is read as a mathematical integer: the code does
  no arithmetic on it.
\<close>

record Parcel =
  Number :: int
  Client :: int
  Status :: string
  Address :: string
  CreatedAt :: string

text \<open>
  Modelled from the spec: the status constants are declared outside \<open>parcel.go\<close>; the
  specification gives the three values \<open>registered\<close>, \<open>sent\<close> and \<open>delivered\<close>.
\<close>

definition ParcelStatusRegistered :: string where
  "ParcelStatusRegistered = ''registered''"

definition ParcelStatusSent :: string where
  "ParcelStatusSent = ''sent''"

definition ParcelStatusDelivered :: string where
  "ParcelStatusDelivered = ''delivered''"

text \<open>The value of \<open>Parcel{}\<close>, Go's zero value of the struct.\<close>

definition zeroParcel :: Parcel where
  "zeroParcel = \<lparr>Number = 0, Client = 0, Status = [], Address = [], CreatedAt = []\<rparr>"

text \<open>
  Errors. \<open>ErrNoRows\<close> is \<open>sql.ErrNoRows\<close>, the value \<open>Row.Scan\<close> of \<open>database/sql\<close>
  returns when the query selected no row; \<open>DriverError m\<close> is any failure reported by
  the driver or the connection, with its message. A failure of the backend is given to
  the model as its message, so the backend itself never produces \<open>ErrNoRows\<close>: only
  \<open>Row.Scan\<close> does.
\<close>

datatype error = ErrNoRows | DriverError string

subsection \<open>The storage backend\<close>

text \<open>
  The database holds the table \<open>parcel\<close>, its rows in storage order, and the counter of
  the generated key: \<open>seq\<close> is the largest number handed out so far.
\<close>

record DB =
  parcel :: "Parcel list"
  seq :: int

definition emptyDB :: DB where
  "emptyDB = \<lparr>parcel = [], seq = 0\<rparr>"

text \<open>
  The statements \<open>parcel.go\<close> executes, each with its named arguments in the order of
  the SQL text:
  \<^item> \<open>INSERT INTO parcel (client, status, address, created_at) VALUES (...)\<close>
  \<^item> \<open>UPDATE parcel SET status = :status WHERE number = :number\<close>
  \<^item> \<open>UPDATE parcel SET address = :address WHERE number = :number AND status = :status\<close>
  \<^item> \<open>DELETE FROM parcel WHERE number = :number AND status = :status\<close>
\<close>

datatype stmt =
    INSERT_parcel int string string string
  | UPDATE_status string int
  | UPDATE_address string int string
  | DELETE_parcel int string

text \<open>The two queries: \<open>SELECT ... WHERE number = :number\<close> and \<open>SELECT ... WHERE client = :client\<close>.\<close>

datatype query =
    SELECT_by_number int
  | SELECT_by_client int

record Result =
  insertId :: int
  rowsAffected :: nat

text \<open>
  Modelled from the spec: the schema is not part of \<open>parcel.go\<close>; the specification says
  \<open>number\<close> is the generated primary key (auto-increment). The next key is one more than
  every key handed out before and every key stored.
\<close>

definition nextNumber :: "DB \<Rightarrow> int" where
  "nextNumber d = fold max (map Number (parcel d)) (seq d) + 1"

fun execute :: "DB \<Rightarrow> stmt \<Rightarrow> Result \<times> DB" where
  "execute d (INSERT_parcel c st a t) =
     (let n = nextNumber d in
      (\<lparr>insertId = n, rowsAffected = 1\<rparr>,
       d\<lparr>parcel := parcel d @ [\<lparr>Number = n, Client = c, Status = st, Address = a, CreatedAt = t\<rparr>],
         seq := n\<rparr>))"
| "execute d (UPDATE_status st n) =
     (\<lparr>insertId = seq d, rowsAffected = length (filter (\<lambda>r. Number r = n) (parcel d))\<rparr>,
      d\<lparr>parcel := map (\<lambda>r. if Number r = n then r\<lparr>Status := st\<rparr> else r) (parcel d)\<rparr>)"
| "execute d (UPDATE_address a n st) =
     (\<lparr>insertId = seq d,
       rowsAffected = length (filter (\<lambda>r. Number r = n \<and> Status r = st) (parcel d))\<rparr>,
      d\<lparr>parcel := map (\<lambda>r. if Number r = n \<and> Status r = st then r\<lparr>Address := a\<rparr> else r) (parcel d)\<rparr>)"
| "execute d (DELETE_parcel n st) =
     (\<lparr>insertId = seq d,
       rowsAffected = length (filter (\<lambda>r. Number r = n \<and> Status r = st) (parcel d))\<rparr>,
      d\<lparr>parcel := filter (\<lambda>r. \<not> (Number r = n \<and> Status r = st)) (parcel d)\<rparr>)"

fun select :: "DB \<Rightarrow> query \<Rightarrow> Parcel list" where
  "select d (SELECT_by_number n) = filter (\<lambda>r. Number r = n) (parcel d)"
| "select d (SELECT_by_client c) = filter (\<lambda>r. Client r = c) (parcel d)"

text \<open>
  \<open>db.Exec\<close>. The argument \<open>fault\<close> says whether this call fails and with which message;
  a statement is atomic, so a failed call leaves the database as it was.
\<close>

definition Exec :: "DB \<Rightarrow> string option \<Rightarrow> stmt \<Rightarrow> (error + Result) \<times> DB" where
  "Exec d fault q =
     (case fault of
        Some m \<Rightarrow> (Inl (DriverError m), d)
      | None \<Rightarrow> (case execute d q of (res, d') \<Rightarrow> (Inr res, d')))"

text \<open>\<open>res.LastInsertId()\<close>, which the driver may fail to provide.\<close>

definition LastInsertId :: "Result \<Rightarrow> string option \<Rightarrow> int \<times> error option" where
  "LastInsertId res fault =
     (case fault of
        Some m \<Rightarrow> (0, Some (DriverError m))
      | None \<Rightarrow> (insertId res, None))"

text \<open>
  The cursor \<open>*sql.Rows\<close>: the rows that \<open>Next\<close> delivers and the error \<open>rows.Err()\<close>
  reports once \<open>Next\<close> has returned false. A delivered row either scans into a
  \<open>Parcel\<close>, or makes \<open>Scan\<close> fail at the column with index \<open>j\<close> (counted from 0, in the
  order of the \<open>SELECT\<close>) with a message.
\<close>

datatype fetched = Fetched Parcel | Unscannable Parcel nat string

record Rows =
  items :: "fetched list"
  iterErr :: "string option"

text \<open>
  A failure while reading: \<open>ScanFails k j m\<close> makes the \<open>Scan\<close> of row \<open>k\<close> (counted from 0)
  fail at column \<open>j\<close>, \<open>NextFails k m\<close> ends the iteration after \<open>k\<close> rows with the error \<open>m\<close>.
\<close>

datatype read_fault = ScanFails nat nat string | NextFails nat string

fun cursor :: "Parcel list \<Rightarrow> read_fault option \<Rightarrow> Rows" where
  "cursor xs None = \<lparr>items = map Fetched xs, iterErr = None\<rparr>"
| "cursor xs (Some (ScanFails k j m)) =
     (if k < length xs
      then \<lparr>items = map Fetched (take k xs) @ Unscannable (xs ! k) j m # map Fetched (drop (Suc k) xs),
            iterErr = None\<rparr>
      else \<lparr>items = map Fetched xs, iterErr = None\<rparr>)"
| "cursor xs (Some (NextFails k m)) = \<lparr>items = map Fetched (take k xs), iterErr = Some m\<rparr>"

text \<open>\<open>db.Query\<close>: the query itself may fail (\<open>qf\<close>), or the reading of its rows (\<open>rf\<close>).\<close>

definition Query :: "DB \<Rightarrow> string option \<Rightarrow> read_fault option \<Rightarrow> query \<Rightarrow> error + Rows" where
  "Query d qf rf q =
     (case qf of
        Some m \<Rightarrow> Inl (DriverError m)
      | None \<Rightarrow> Inr (cursor (select d q) rf))"

text \<open>\<open>db.QueryRow\<close> runs the query and keeps its error, if any, for \<open>Scan\<close>.\<close>

definition QueryRow :: "DB \<Rightarrow> string option \<Rightarrow> read_fault option \<Rightarrow> query \<Rightarrow> error + Rows" where
  "QueryRow d qf rf q = Query d qf rf q"

text \<open>
  \<open>Rows.Scan\<close> of \<open>database/sql\<close> converts the columns of the current row into the
  destinations one after the other and stops at the first conversion that fails: the
  destinations of the columns before it have been assigned by then, the others keep
  their values. \<open>scanColumns j r p\<close> is the destination \<open>p\<close> after the columns with index
  below \<open>j\<close> of the row \<open>r\<close> have been assigned.
\<close>

definition scanColumns :: "nat \<Rightarrow> Parcel \<Rightarrow> Parcel \<Rightarrow> Parcel" where
  "scanColumns j r p =
     \<lparr>Number = (if 0 < j then Number r else Number p),
      Client = (if 1 < j then Client r else Client p),
      Status = (if 2 < j then Status r else Status p),
      Address = (if 3 < j then Address r else Address p),
      CreatedAt = (if 4 < j then CreatedAt r else CreatedAt p)\<rparr>"

fun Rows_Scan :: "fetched \<Rightarrow> Parcel \<Rightarrow> Parcel \<times> error option" where
  "Rows_Scan (Fetched r) p = (r, None)"
| "Rows_Scan (Unscannable r j m) p = (scanColumns j r p, Some (DriverError m))"

text \<open>
  \<open>Row.Scan\<close> of \<open>database/sql\<close>: the deferred error of the query first; then the first
  row, \<open>ErrNoRows\<close> when there is none and the iteration did not fail; then the scan
  of that row into the destination \<open>p\<close>.
\<close>

definition Row_Scan :: "error + Rows \<Rightarrow> Parcel \<Rightarrow> Parcel \<times> error option" where
  "Row_Scan row p =
     (case row of
        Inl err \<Rightarrow> (p, Some err)
      | Inr rows \<Rightarrow>
          (case items rows of
             [] \<Rightarrow> (case iterErr rows of
                      Some m \<Rightarrow> (p, Some (DriverError m))
                    | None \<Rightarrow> (p, Some ErrNoRows))
           | x # _ \<Rightarrow> Rows_Scan x p))"

subsection \<open>The handle\<close>

text \<open>
  The handle \<open>*sql.DB\<close> that the store keeps in \<open>s.db\<close>: the database behind it and what
  the backend is going to do at the calls to come. Every call through the handle,
  \<open>LastInsertId\<close> included, takes the first outcome of the list: the failure of the call
  itself, if any, and for a query the failure while its rows are read, if any. When
  the list is exhausted the backend serves the call. A method that called the backend
  twice would take two outcomes.
\<close>

type_synonym outcome = "string option \<times> read_fault option"

record sqlDB =
  tables :: DB
  pending :: "outcome list"

definition nextOutcome :: "outcome list \<Rightarrow> outcome \<times> outcome list" where
  "nextOutcome fs = (case fs of [] \<Rightarrow> ((None, None), []) | f # fs' \<Rightarrow> (f, fs'))"

definition db_Exec :: "sqlDB \<Rightarrow> stmt \<Rightarrow> (error + Result) \<times> sqlDB" where
  "db_Exec h q =
     (case nextOutcome (pending h) of
        ((ef, rf), fs) \<Rightarrow>
          (case Exec (tables h) ef q of (r, d') \<Rightarrow> (r, \<lparr>tables = d', pending = fs\<rparr>)))"

definition res_LastInsertId :: "sqlDB \<Rightarrow> Result \<Rightarrow> (int \<times> error option) \<times> sqlDB" where
  "res_LastInsertId h res =
     (case nextOutcome (pending h) of
        ((lf, rf), fs) \<Rightarrow> (LastInsertId res lf, \<lparr>tables = tables h, pending = fs\<rparr>))"

definition db_Query :: "sqlDB \<Rightarrow> query \<Rightarrow> (error + Rows) \<times> sqlDB" where
  "db_Query h q =
     (case nextOutcome (pending h) of
        ((qf, rf), fs) \<Rightarrow> (Query (tables h) qf rf q, \<lparr>tables = tables h, pending = fs\<rparr>))"

definition db_QueryRow :: "sqlDB \<Rightarrow> query \<Rightarrow> (error + Rows) \<times> sqlDB" where
  "db_QueryRow h q =
     (case nextOutcome (pending h) of
        ((qf, rf), fs) \<Rightarrow> (QueryRow (tables h) qf rf q, \<lparr>tables = tables h, pending = fs\<rparr>))"

subsection \<open>The methods of \<open>ParcelStore\<close>\<close>

text \<open>
  The receiver \<open>s\<close> holds nothing but the handle \<open>s.db\<close>, so the model passes the handle;
  a method returns it with the database as the method left it and the outcomes it has
  not used. The calls of \<open>log.Println\<close> have no effect on the store and are left out.
\<close>

definition ParcelStore_Add :: "sqlDB \<Rightarrow> Parcel \<Rightarrow> (int \<times> error option) \<times> sqlDB" where
  "ParcelStore_Add s p =
     (case db_Exec s (INSERT_parcel (Client p) (Status p) (Address p) (CreatedAt p)) of
        (Inl err, s') \<Rightarrow> ((0, Some err), s')
      | (Inr res, s') \<Rightarrow>
          (case res_LastInsertId s' res of
             ((n, Some err), s'') \<Rightarrow> ((0, Some err), s'')
           | ((n, None), s'') \<Rightarrow> ((n, None), s'')))"

definition ParcelStore_Get :: "sqlDB \<Rightarrow> int \<Rightarrow> (Parcel \<times> error option) \<times> sqlDB" where
  "ParcelStore_Get s number =
     (let p = zeroParcel in
      case db_QueryRow s (SELECT_by_number number) of
        (row, s') \<Rightarrow>
          (case Row_Scan row p of
             (p', Some err) \<Rightarrow> ((p', Some err), s')
           | (p', None) \<Rightarrow> ((p', None), s')))"

text \<open>
  The loop of \<open>GetByClient\<close> over the cursor, each row scanned into a fresh \<open>Parcel{}\<close>:
  \<open>Inl\<close> is the early return from inside the loop with what was read so far, \<open>Inr\<close> is
  the slice when \<open>Next\<close> has returned false.
\<close>

fun scanLoop :: "Parcel list \<Rightarrow> fetched list \<Rightarrow> (Parcel list \<times> error) + Parcel list" where
  "scanLoop res [] = Inr res"
| "scanLoop res (x # rest) =
     (case Rows_Scan x zeroParcel of
        (p, Some err) \<Rightarrow> Inl (res, err)
      | (p, None) \<Rightarrow> scanLoop (res @ [p]) rest)"

definition ParcelStore_GetByClient :: "sqlDB \<Rightarrow> int \<Rightarrow> (Parcel list \<times> error option) \<times> sqlDB" where
  "ParcelStore_GetByClient s client =
     (case db_Query s (SELECT_by_client client) of
        (Inl err, s') \<Rightarrow> (([], Some err), s')
      | (Inr rows, s') \<Rightarrow>
          (case scanLoop [] (items rows) of
             Inl (res, err) \<Rightarrow> ((res, Some err), s')
           | Inr res \<Rightarrow>
               (case iterErr rows of
                  Some m \<Rightarrow> ((res, Some (DriverError m)), s')
                | None \<Rightarrow> ((res, None), s'))))"

definition ParcelStore_SetStatus :: "sqlDB \<Rightarrow> int \<Rightarrow> string \<Rightarrow> error option \<times> sqlDB" where
  "ParcelStore_SetStatus s number status =
     (case db_Exec s (UPDATE_status status number) of
        (Inl err, s') \<Rightarrow> (Some err, s')
      | (Inr _, s') \<Rightarrow> (None, s'))"

definition ParcelStore_SetAddress :: "sqlDB \<Rightarrow> int \<Rightarrow> string \<Rightarrow> error option \<times> sqlDB" where
  "ParcelStore_SetAddress s number address =
     (case db_Exec s (UPDATE_address address number ParcelStatusRegistered) of
        (Inl err, s') \<Rightarrow> (Some err, s')
      | (Inr _, s') \<Rightarrow> (None, s'))"

definition ParcelStore_Delete :: "sqlDB \<Rightarrow> int \<Rightarrow> error option \<times> sqlDB" where
  "ParcelStore_Delete s number =
     (case db_Exec s (DELETE_parcel number ParcelStatusRegistered) of
        (Inl err, s') \<Rightarrow> (Some err, s')
      | (Inr _, s') \<Rightarrow> (None, s'))"

subsection \<open>One call of a method\<close>

text \<open>
  One call of a method on the database \<open>d\<close>, with the outcomes of the backend calls
  written out: \<open>ef\<close> for \<open>Exec\<close>, \<open>lf\<close> for \<open>LastInsertId\<close>, \<open>qf\<close> and \<open>rf\<close> for the query and
  the reading of its rows. The result is what the method returns and, for a method
  that writes, the database afterwards.
\<close>

definition Add :: "DB \<Rightarrow> string option \<Rightarrow> string option \<Rightarrow> Parcel \<Rightarrow> (int \<times> error option) \<times> DB" where
  "Add d ef lf p =
     (case ParcelStore_Add \<lparr>tables = d, pending = [(ef, None), (lf, None)]\<rparr> p of
        (r, s') \<Rightarrow> (r, tables s'))"

definition Get :: "DB \<Rightarrow> string option \<Rightarrow> read_fault option \<Rightarrow> int \<Rightarrow> Parcel \<times> error option" where
  "Get d qf rf number = fst (ParcelStore_Get \<lparr>tables = d, pending = [(qf, rf)]\<rparr> number)"

definition GetByClient :: "DB \<Rightarrow> string option \<Rightarrow> read_fault option \<Rightarrow> int \<Rightarrow> Parcel list \<times> error option" where
  "GetByClient d qf rf client =
     fst (ParcelStore_GetByClient \<lparr>tables = d, pending = [(qf, rf)]\<rparr> client)"

definition SetStatus :: "DB \<Rightarrow> string option \<Rightarrow> int \<Rightarrow> string \<Rightarrow> error option \<times> DB" where
  "SetStatus d ef number status =
     (case ParcelStore_SetStatus \<lparr>tables = d, pending = [(ef, None)]\<rparr> number status of
        (e, s') \<Rightarrow> (e, tables s'))"

definition SetAddress :: "DB \<Rightarrow> string option \<Rightarrow> int \<Rightarrow> string \<Rightarrow> error option \<times> DB" where
  "SetAddress d ef number address =
     (case ParcelStore_SetAddress \<lparr>tables = d, pending = [(ef, None)]\<rparr> number address of
        (e, s') \<Rightarrow> (e, tables s'))"

definition Delete :: "DB \<Rightarrow> string option \<Rightarrow> int \<Rightarrow> error option \<times> DB" where
  "Delete d ef number =
     (case ParcelStore_Delete \<lparr>tables = d, pending = [(ef, None)]\<rparr> number of
        (e, s') \<Rightarrow> (e, tables s'))"

subsection \<open>Histories\<close>

text \<open>
  The primary key of the table: no two stored rows have the same \<open>number\<close>.
\<close>

definition PrimaryKey :: "DB \<Rightarrow> bool" where
  "PrimaryKey d = distinct (map Number (parcel d))"

text \<open>
  A caller's history is a list of calls of the writing methods, each with the faults
  the backend shows during that call. \<open>run\<close> performs them in order and collects the
  numbers that \<open>Add\<close> returned with a nil error.
\<close>

datatype call =
    CallAdd "string option" "string option" Parcel
  | CallSetStatus "string option" int string
  | CallSetAddress "string option" int string
  | CallDelete "string option" int

fun run :: "DB \<Rightarrow> call list \<Rightarrow> int list \<times> DB" where
  "run d [] = ([], d)"
| "run d (CallAdd ef lf p # cs) =
     (case Add d ef lf p of
        ((n, None), d') \<Rightarrow> (case run d' cs of (ns, d'') \<Rightarrow> (n # ns, d''))
      | ((n, Some err), d') \<Rightarrow> run d' cs)"
| "run d (CallSetStatus ef n st # cs) = run (snd (SetStatus d ef n st)) cs"
| "run d (CallSetAddress ef n a # cs) = run (snd (SetAddress d ef n a)) cs"
| "run d (CallDelete ef n # cs) = run (snd (Delete d ef n)) cs"

fun isAdd :: "call \<Rightarrow> bool" where
  "isAdd (CallAdd ef lf p) = True"
| "isAdd c = False"

text \<open>A call of \<open>Add\<close> whose insert went through but whose generated key could not be read.\<close>

fun keyLost :: "call \<Rightarrow> bool" where
  "keyLost (CallAdd None (Some m) p) = True"
| "keyLost c = False"

text \<open>The columns of a row that no statement of \<open>parcel.go\<close> assigns after the insert.\<close>

definition fixedColumns :: "Parcel \<Rightarrow> int \<times> int \<times> string" where
  "fixedColumns r = (Number r, Client r, CreatedAt r)"

subsection \<open>Test data\<close>

text \<open>
  \<open>getTestParcel\<close> of the test file, with the time stamp of the specification's scenario
  in place of \<open>time.Now()\<close>.
\<close>

definition getTestParcel :: Parcel where
  "getTestParcel =
     \<lparr>Number = 0, Client = 1000, Status = ParcelStatusRegistered, Address = ''test'',
      CreatedAt = ''2024-01-01T00:00:00Z''\<rparr>"

text \<open>A table with one registered parcel (number 1) and one sent parcel (number 2).\<close>

definition demoDB :: DB where
  "demoDB =
     \<lparr>parcel = [getTestParcel\<lparr>Number := 1\<rparr>,
                getTestParcel\<lparr>Number := 2, Client := 7, Status := ParcelStatusSent\<rparr>],
      seq = 2\<rparr>"


section \<open>Properties\<close>

text \<open>The definitions a concrete run unfolds.\<close>

lemmas handle_defs = db_Exec_def res_LastInsertId_def db_Query_def db_QueryRow_def nextOutcome_def

lemmas model_defs = handle_defs ParcelStore_Add_def ParcelStore_Get_def
  ParcelStore_GetByClient_def ParcelStore_SetStatus_def ParcelStore_SetAddress_def ParcelStore_Delete_def
  scanColumns_def Get_def QueryRow_def Query_def Row_Scan_def Add_def Exec_def LastInsertId_def
  nextNumber_def PrimaryKey_def demoDB_def getTestParcel_def ParcelStatusRegistered_def
  ParcelStatusSent_def zeroParcel_def Delete_def SetStatus_def SetAddress_def GetByClient_def emptyDB_def
  fixedColumns_def


lemma fold_max_ge_init: "(a::int) \<le> fold max xs a"
  by (induction xs arbitrary: a) (auto intro: order_trans[OF max.cobounded2])

lemma fold_max_ge_mem: "(x::int) \<in> set xs \<Longrightarrow> x \<le> fold max xs a"
proof (induction xs arbitrary: a)
  case Nil
  then show ?case by simp
next
  case (Cons y ys)
  show ?case
  proof (cases "x = y")
    case True
    have "y \<le> max y a" by simp
    also have "\<dots> \<le> fold max ys (max y a)" by (rule fold_max_ge_init)
    finally show ?thesis using True by simp
  next
    case False
    with Cons show ?thesis by simp
  qed
qed

lemma nextNumber_fresh: "r \<in> set (parcel d) \<Longrightarrow> Number r < nextNumber d"
  using fold_max_ge_mem[of "Number r" "map Number (parcel d)" "seq d"]
  by (simp add: nextNumber_def)

lemma nextNumber_seq: "seq d < nextNumber d"
  using fold_max_ge_init[of "seq d" "map Number (parcel d)"]
  by (simp add: nextNumber_def)

lemma filter_fresh_empty: "filter (\<lambda>r. Number r = nextNumber d) (parcel d) = []"
  by (auto simp: filter_empty_conv dest: nextNumber_fresh)

lemma Exec_ok: "Exec d None q = (Inr (fst (execute d q)), snd (execute d q))"
  by (simp add: Exec_def split: prod.split)

lemma Exec_fault: "Exec d (Some m) q = (Inl (DriverError m), d)"
  by (simp add: Exec_def)

lemma Get_ok:
  "Get d None None n =
     (case filter (\<lambda>r. Number r = n) (parcel d) of
        [] \<Rightarrow> (zeroParcel, Some ErrNoRows)
      | r # rs \<Rightarrow> (r, None))"
  by (simp add: Get_def ParcelStore_Get_def handle_defs QueryRow_def Query_def Row_Scan_def split: list.split)

lemma Add_ok:
  "Add d None None p =
     ((nextNumber d, None),
      d\<lparr>parcel := parcel d @ [p\<lparr>Number := nextNumber d\<rparr>], seq := nextNumber d\<rparr>)"
  by (simp add: Add_def ParcelStore_Add_def handle_defs Exec_ok LastInsertId_def Let_def)

text \<open>
  Claim C3 (round trip). Whatever the table holds, an \<open>Add\<close> of \<open>p\<close> that the backend serves
  returns a nil error, and \<open>Get\<close> with the number \<open>Add\<close> returned yields \<open>p\<close> with its
  \<open>Client\<close>, \<open>Status\<close>, \<open>Address\<close> and \<open>CreatedAt\<close>, its \<open>Number\<close> being the returned one.
\<close>

theorem Add_Get_round_trip:
  "Add d None None p = ((n, e), d') \<Longrightarrow> e = None \<and> Get d' None None n = (p\<lparr>Number := n\<rparr>, None)"
  by (auto simp: Add_ok Get_ok filter_fresh_empty)

theorem Add_Get_round_trip_witness:
  "Add demoDB None None getTestParcel
     = ((3, None),
        demoDB\<lparr>parcel := parcel demoDB @ [getTestParcel\<lparr>Number := 3\<rparr>], seq := 3\<rparr>)
   \<and> Get (demoDB\<lparr>parcel := parcel demoDB @ [getTestParcel\<lparr>Number := 3\<rparr>], seq := 3\<rparr>) None None 3
       = (getTestParcel\<lparr>Number := 3\<rparr>, None)"
  using Add_Get_round_trip[of demoDB getTestParcel 3 None
      "demoDB\<lparr>parcel := parcel demoDB @ [getTestParcel\<lparr>Number := 3\<rparr>], seq := 3\<rparr>"]
  by (simp add: model_defs)

lemma SetStatus_ok:
  "SetStatus d None n st =
     (None, d\<lparr>parcel := map (\<lambda>r. if Number r = n then r\<lparr>Status := st\<rparr> else r) (parcel d)\<rparr>)"
  by (simp add: SetStatus_def ParcelStore_SetStatus_def handle_defs Exec_ok)

lemma SetAddress_ok:
  "SetAddress d None n a =
     (None, d\<lparr>parcel := map (\<lambda>r. if Number r = n \<and> Status r = ParcelStatusRegistered
                                  then r\<lparr>Address := a\<rparr> else r) (parcel d)\<rparr>)"
  by (simp add: SetAddress_def ParcelStore_SetAddress_def handle_defs Exec_ok)

lemma Delete_ok:
  "Delete d None n =
     (None, d\<lparr>parcel := filter (\<lambda>r. \<not> (Number r = n \<and> Status r = ParcelStatusRegistered)) (parcel d)\<rparr>)"
  by (simp add: Delete_def ParcelStore_Delete_def handle_defs Exec_ok)

lemma SetStatus_fault: "SetStatus d (Some m) n st = (Some (DriverError m), d)"
  by (simp add: SetStatus_def ParcelStore_SetStatus_def handle_defs Exec_fault)

lemma SetAddress_fault: "SetAddress d (Some m) n a = (Some (DriverError m), d)"
  by (simp add: SetAddress_def ParcelStore_SetAddress_def handle_defs Exec_fault)

lemma Delete_fault: "Delete d (Some m) n = (Some (DriverError m), d)"
  by (simp add: Delete_def ParcelStore_Delete_def handle_defs Exec_fault)

lemma map_unchanged: "(\<forall>r\<in>set xs. \<not> P r) \<Longrightarrow> map (\<lambda>r. if P r then f r else r) xs = xs"
  by (induction xs) auto

lemma filter_unchanged: "(\<forall>r\<in>set xs. \<not> P r) \<Longrightarrow> filter (\<lambda>r. \<not> P r) xs = xs"
  by (induction xs) auto

lemma filter_none: "(\<forall>r\<in>set xs. \<not> P r) \<Longrightarrow> filter P xs = []"
  by (induction xs) auto

lemma DB_parcel_same: "(d::DB)\<lparr>parcel := parcel d\<rparr> = d"
  by simp

lemma Delete_noop:
  assumes "\<forall>r\<in>set (parcel d). Number r = n \<longrightarrow> Status r \<noteq> ParcelStatusRegistered"
  shows "Delete d None n = (None, d)"
proof -
  have "\<forall>r\<in>set (parcel d). \<not> (Number r = n \<and> Status r = ParcelStatusRegistered)"
    using assms by blast
  then have "filter (\<lambda>r. \<not> (Number r = n \<and> Status r = ParcelStatusRegistered)) (parcel d) = parcel d"
    by (rule filter_unchanged)
  then show ?thesis by (simp add: Delete_ok)
qed

lemma Delete_noop_rows:
  assumes "\<forall>r\<in>set (parcel d). Number r = n \<longrightarrow> Status r \<noteq> ParcelStatusRegistered"
  shows "rowsAffected (fst (execute d (DELETE_parcel n ParcelStatusRegistered))) = 0"
proof -
  have "\<forall>r\<in>set (parcel d). \<not> (Number r = n \<and> Status r = ParcelStatusRegistered)"
    using assms by blast
  then have "filter (\<lambda>r. Number r = n \<and> Status r = ParcelStatusRegistered) (parcel d) = []"
    by (rule filter_none)
  then show ?thesis by simp
qed

lemma PrimaryKey_unique:
  "PrimaryKey d \<Longrightarrow> x \<in> set (parcel d) \<Longrightarrow> y \<in> set (parcel d) \<Longrightarrow> Number x = Number y \<Longrightarrow> x = y"
  unfolding PrimaryKey_def by (auto simp: distinct_map dest: inj_onD)

lemma Get_none:
  "\<forall>r\<in>set (parcel d). Number r \<noteq> n \<Longrightarrow> Get d None None n = (zeroParcel, Some ErrNoRows)"
proof -
  assume "\<forall>r\<in>set (parcel d). Number r \<noteq> n"
  then have "filter (\<lambda>r. Number r = n) (parcel d) = []"
    by (rule filter_none)
  then show ?thesis by (simp add: Get_ok)
qed

lemma Get_found:
  "Get d None None n = (r, None) \<Longrightarrow> r \<in> set (parcel d) \<and> Number r = n"
proof -
  assume g: "Get d None None n = (r, None)"
  then obtain rs where "filter (\<lambda>r. Number r = n) (parcel d) = r # rs"
    by (auto simp: Get_ok split: list.splits)
  then have "r \<in> set (filter (\<lambda>r. Number r = n) (parcel d))" by simp
  then show ?thesis by simp
qed

lemma Delete_rows:
  "parcel (snd (Delete d None n))
     = filter (\<lambda>r. \<not> (Number r = n \<and> Status r = ParcelStatusRegistered)) (parcel d)"
  by (simp add: Delete_ok)

lemma Delete_then_Get:
  assumes pk: "PrimaryKey d" and g: "Get d None None n = (r, None)"
    and st: "Status r = ParcelStatusRegistered"
  shows "Get (snd (Delete d None n)) None None n = (zeroParcel, Some ErrNoRows)"
proof (rule Get_none, rule ballI)
  fix x assume "x \<in> set (parcel (snd (Delete d None n)))"
  then have x: "x \<in> set (parcel d)" and nx: "\<not> (Number x = n \<and> Status x = ParcelStatusRegistered)"
    unfolding Delete_rows by simp_all
  from g have r: "r \<in> set (parcel d)" "Number r = n" using Get_found by blast+
  show "Number x \<noteq> n"
  proof
    assume "Number x = n"
    with pk x r have "x = r" using PrimaryKey_unique by blast
    with st nx \<open>Number x = n\<close> show False by simp
  qed
qed

lemma Add_Delete_Get:
  assumes st: "Status p = ParcelStatusRegistered" and a: "Add d None None p = ((k, None), d1)"
  shows "Get (snd (Delete d1 None k)) None None k = (zeroParcel, Some ErrNoRows)"
proof (rule Get_none, rule ballI)
  have k: "k = nextNumber d" and d1: "d1 = d\<lparr>parcel := parcel d @ [p\<lparr>Number := k\<rparr>], seq := k\<rparr>"
    using a by (auto simp: Add_ok)
  fix x assume "x \<in> set (parcel (snd (Delete d1 None k)))"
  then have x: "x \<in> set (parcel d1)" and nx: "\<not> (Number x = k \<and> Status x = ParcelStatusRegistered)"
    unfolding Delete_rows by simp_all
  from x d1 have "x \<in> set (parcel d) \<or> x = p\<lparr>Number := k\<rparr>" by auto
  then show "Number x \<noteq> k"
  proof
    assume "x \<in> set (parcel d)"
    then show ?thesis using nextNumber_fresh[of x d] k by simp
  next
    assume "x = p\<lparr>Number := k\<rparr>"
    with nx st show ?thesis by simp
  qed
qed

lemma Add_SetStatus_Delete_Get:
  assumes a: "Add d None None p = ((k, None), d1)"
    and d2: "d2 = snd (SetStatus d1 None k ParcelStatusSent)"
  shows "Delete d2 None k = (None, d2)"
    and "Get d2 None None k = (p\<lparr>Number := k, Status := ParcelStatusSent\<rparr>, None)"
proof -
  have k: "k = nextNumber d" and d1: "d1 = d\<lparr>parcel := parcel d @ [p\<lparr>Number := k\<rparr>], seq := k\<rparr>"
    using a by (auto simp: Add_ok)
  have old: "\<forall>r\<in>set (parcel d). Number r \<noteq> k" using k nextNumber_fresh by fastforce
  then have m: "map (\<lambda>r. if Number r = k then r\<lparr>Status := ParcelStatusSent\<rparr> else r) (parcel d) = parcel d"
    by (rule map_unchanged)
  have p2: "parcel d2 = parcel d @ [p\<lparr>Number := k, Status := ParcelStatusSent\<rparr>]"
    using d2 d1 m by (simp add: SetStatus_ok)
  have ne: "ParcelStatusSent \<noteq> ParcelStatusRegistered"
    by (simp add: ParcelStatusSent_def ParcelStatusRegistered_def)
  have "\<forall>r\<in>set (parcel d2). Number r = k \<longrightarrow> Status r \<noteq> ParcelStatusRegistered"
    using p2 old ne by auto
  then show "Delete d2 None k = (None, d2)" by (rule Delete_noop)
  have "filter (\<lambda>r. Number r = k) (parcel d) = []" using old by (auto simp: filter_empty_conv)
  then show "Get d2 None None k = (p\<lparr>Number := k, Status := ParcelStatusSent\<rparr>, None)"
    using p2 by (simp add: Get_ok)
qed

text \<open>
  Claim C1 (deletion gate). \<open>Delete\<close> sends the single statement
  \<open>DELETE_parcel number ParcelStatusRegistered\<close>, whose condition carries the status.
  When the backend serves it, \<open>Delete\<close> returns nil and the table keeps exactly the rows
  that do not have both the given number and the status \<open>registered\<close>. If no row has
  both (the number is unknown, or its row is not registered), the database is unchanged
  and the statement affected zero rows. Under the primary key, a registered row that
  \<open>Get\<close> found is gone afterwards: \<open>Get\<close> returns \<open>ErrNoRows\<close>. In particular, a parcel added
  as \<open>registered\<close> cannot be read after \<open>Delete\<close>; after \<open>SetStatus\<close> to \<open>sent\<close>, \<open>Delete\<close>
  changes nothing and \<open>Get\<close> returns the parcel, status \<open>sent\<close>.
\<close>

theorem Delete_registered_gate:
  "fst (Delete d None n) = None
   \<and> parcel (snd (Delete d None n))
       = filter (\<lambda>r. \<not> (Number r = n \<and> Status r = ParcelStatusRegistered)) (parcel d)
   \<and> ((\<forall>r\<in>set (parcel d). Number r = n \<longrightarrow> Status r \<noteq> ParcelStatusRegistered) \<longrightarrow>
        Delete d None n = (None, d)
        \<and> rowsAffected (fst (execute d (DELETE_parcel n ParcelStatusRegistered))) = 0)
   \<and> (PrimaryKey d \<and> Get d None None n = (r, None) \<and> Status r = ParcelStatusRegistered \<longrightarrow>
        Get (snd (Delete d None n)) None None n = (zeroParcel, Some ErrNoRows))
   \<and> (Status p = ParcelStatusRegistered \<and> Add d None None p = ((k, None), d1) \<longrightarrow>
        Get (snd (Delete d1 None k)) None None k = (zeroParcel, Some ErrNoRows)
        \<and> Delete (snd (SetStatus d1 None k ParcelStatusSent)) None k
            = (None, snd (SetStatus d1 None k ParcelStatusSent))
        \<and> Get (snd (SetStatus d1 None k ParcelStatusSent)) None None k
            = (p\<lparr>Number := k, Status := ParcelStatusSent\<rparr>, None))"
proof (intro conjI impI)
  show "fst (Delete d None n) = None" by (simp add: Delete_ok)
  show "parcel (snd (Delete d None n))
       = filter (\<lambda>r. \<not> (Number r = n \<and> Status r = ParcelStatusRegistered)) (parcel d)"
    by (simp add: Delete_ok)
next
  assume "\<forall>r\<in>set (parcel d). Number r = n \<longrightarrow> Status r \<noteq> ParcelStatusRegistered"
  then show "Delete d None n = (None, d)"
    and "rowsAffected (fst (execute d (DELETE_parcel n ParcelStatusRegistered))) = 0"
    by (rule Delete_noop, rule Delete_noop_rows)
next
  assume "PrimaryKey d \<and> Get d None None n = (r, None) \<and> Status r = ParcelStatusRegistered"
  then show "Get (snd (Delete d None n)) None None n = (zeroParcel, Some ErrNoRows)"
    using Delete_then_Get by blast
next
  assume h: "Status p = ParcelStatusRegistered \<and> Add d None None p = ((k, None), d1)"
  then show "Get (snd (Delete d1 None k)) None None k = (zeroParcel, Some ErrNoRows)"
    using Add_Delete_Get by blast
  from h show "Delete (snd (SetStatus d1 None k ParcelStatusSent)) None k
            = (None, snd (SetStatus d1 None k ParcelStatusSent))"
    using Add_SetStatus_Delete_Get(1) by blast
  from h show "Get (snd (SetStatus d1 None k ParcelStatusSent)) None None k
            = (p\<lparr>Number := k, Status := ParcelStatusSent\<rparr>, None)"
    using Add_SetStatus_Delete_Get(2) by blast
qed

theorem Delete_registered_gate_witness:
  "PrimaryKey demoDB
   \<and> Get demoDB None None 1 = (getTestParcel\<lparr>Number := 1\<rparr>, None)
   \<and> Status (getTestParcel\<lparr>Number := 1\<rparr>) = ParcelStatusRegistered
   \<and> Get (snd (Delete demoDB None 1)) None None 1 = (zeroParcel, Some ErrNoRows)
   \<and> \<not> (\<exists>r\<in>set (parcel demoDB). Number r = 2 \<and> Status r = ParcelStatusRegistered)
   \<and> Delete demoDB None 2 = (None, demoDB)
   \<and> Status getTestParcel = ParcelStatusRegistered
   \<and> fst (Add demoDB None None getTestParcel) = (3, None)
   \<and> Get (snd (Delete (snd (Add demoDB None None getTestParcel)) None 3)) None None 3
       = (zeroParcel, Some ErrNoRows)
   \<and> Get (snd (SetStatus (snd (Add demoDB None None getTestParcel)) None 3 ParcelStatusSent)) None None 3
       = (getTestParcel\<lparr>Number := 3, Status := ParcelStatusSent\<rparr>, None)"
  using Delete_registered_gate[where d = demoDB and n = 1 and r = "getTestParcel\<lparr>Number := 1\<rparr>"
      and p = getTestParcel and k = 3 and ?d1.0 = "snd (Add demoDB None None getTestParcel)"]
    Delete_registered_gate[where d = demoDB and n = 2]
  by (simp add: model_defs)

lemma Get_exists:
  assumes "\<exists>r\<in>set (parcel d). Number r = n"
  shows "\<exists>r. Get d None None n = (r, None)"
proof -
  from assms have "filter (\<lambda>r. Number r = n) (parcel d) \<noteq> []"
    by (auto simp: filter_empty_conv)
  then obtain r rs where "filter (\<lambda>r. Number r = n) (parcel d) = r # rs"
    by (cases "filter (\<lambda>r. Number r = n) (parcel d)") auto
  then show ?thesis by (simp add: Get_ok)
qed

lemma Get_map:
  assumes g: "Get d None None n = (r, None)" and keep: "\<And>x. Number (f x) = Number x"
  shows "Get (d\<lparr>parcel := map f (parcel d)\<rparr>) None None n = (f r, None)"
proof -
  from g obtain rs where fr: "filter (\<lambda>r. Number r = n) (parcel d) = r # rs"
    by (auto simp: Get_ok split: list.splits)
  have "filter (\<lambda>r. Number r = n) (map f (parcel d)) = map f (filter (\<lambda>r. Number r = n) (parcel d))"
    by (simp add: filter_map comp_def keep)
  with fr show ?thesis by (simp add: Get_ok)
qed

lemma SetStatus_then_Get:
  assumes "Get d None None n = (r, None)"
  shows "Get (snd (SetStatus d None n s)) None None n = (r\<lparr>Status := s\<rparr>, None)"
proof -
  have n: "Number r = n" using assms Get_found by blast
  have "Get (d\<lparr>parcel := map (\<lambda>r. if Number r = n then r\<lparr>Status := s\<rparr> else r) (parcel d)\<rparr>) None None n
        = ((\<lambda>r. if Number r = n then r\<lparr>Status := s\<rparr> else r) r, None)"
    by (rule Get_map[OF assms]) simp
  with n show ?thesis by (simp add: SetStatus_ok)
qed

lemma SetStatus_noop:
  assumes "\<forall>r\<in>set (parcel d). Number r \<noteq> n"
  shows "SetStatus d None n s = (None, d)"
    and "rowsAffected (fst (execute d (UPDATE_status s n))) = 0"
proof -
  have "map (\<lambda>r. if Number r = n then r\<lparr>Status := s\<rparr> else r) (parcel d) = parcel d"
    using assms by (rule map_unchanged)
  then show "SetStatus d None n s = (None, d)" by (simp add: SetStatus_ok)
  have "filter (\<lambda>r. Number r = n) (parcel d) = []" using assms by (rule filter_none)
  then show "rowsAffected (fst (execute d (UPDATE_status s n))) = 0" by simp
qed

lemma SetAddress_then_Get:
  assumes "Get d None None n = (r, None)"
  shows "Get (snd (SetAddress d None n a)) None None n
         = (if Status r = ParcelStatusRegistered then r\<lparr>Address := a\<rparr> else r, None)"
proof -
  have n: "Number r = n" using assms Get_found by blast
  have "Get (d\<lparr>parcel := map (\<lambda>r. if Number r = n \<and> Status r = ParcelStatusRegistered
                                    then r\<lparr>Address := a\<rparr> else r) (parcel d)\<rparr>) None None n
        = ((\<lambda>r. if Number r = n \<and> Status r = ParcelStatusRegistered
                 then r\<lparr>Address := a\<rparr> else r) r, None)"
    by (rule Get_map[OF assms]) simp
  with n show ?thesis by (simp add: SetAddress_ok)
qed

lemma SetAddress_noop:
  assumes "\<forall>r\<in>set (parcel d). Number r = n \<longrightarrow> Status r \<noteq> ParcelStatusRegistered"
  shows "SetAddress d None n a = (None, d)"
    and "rowsAffected (fst (execute d (UPDATE_address a n ParcelStatusRegistered))) = 0"
proof -
  have no: "\<forall>r\<in>set (parcel d). \<not> (Number r = n \<and> Status r = ParcelStatusRegistered)"
    using assms by blast
  then have "map (\<lambda>r. if Number r = n \<and> Status r = ParcelStatusRegistered
                       then r\<lparr>Address := a\<rparr> else r) (parcel d) = parcel d"
    by (rule map_unchanged)
  then show "SetAddress d None n a = (None, d)" by (simp add: SetAddress_ok)
  have "filter (\<lambda>r. Number r = n \<and> Status r = ParcelStatusRegistered) (parcel d) = []"
    using no by (rule filter_none)
  then show "rowsAffected (fst (execute d (UPDATE_address a n ParcelStatusRegistered))) = 0"
    by simp
qed

text \<open>
  Claim C2 (address gate). \<open>SetAddress\<close> sends the single statement
  \<open>UPDATE_address address number ParcelStatusRegistered\<close>, whose condition carries the
  status. When the backend serves it, \<open>SetAddress\<close> returns nil for every number and
  every address; a row gets the new address exactly when it has the given number and
  the status \<open>registered\<close>, and is otherwise kept as it is. The row \<open>Get\<close> returned before
  is returned afterwards with the new address if it was registered, unchanged if not.
  If no row with the number is registered, the database is unchanged and the statement
  affected zero rows.
\<close>

theorem SetAddress_registered_gate:
  "fst (SetAddress d None n a) = None
   \<and> parcel (snd (SetAddress d None n a))
       = map (\<lambda>r. if Number r = n \<and> Status r = ParcelStatusRegistered
                   then r\<lparr>Address := a\<rparr> else r) (parcel d)
   \<and> (Get d None None n = (r, None) \<longrightarrow>
        Get (snd (SetAddress d None n a)) None None n
          = (if Status r = ParcelStatusRegistered then r\<lparr>Address := a\<rparr> else r, None))
   \<and> ((\<forall>r\<in>set (parcel d). Number r = n \<longrightarrow> Status r \<noteq> ParcelStatusRegistered) \<longrightarrow>
        SetAddress d None n a = (None, d)
        \<and> rowsAffected (fst (execute d (UPDATE_address a n ParcelStatusRegistered))) = 0)"
proof (intro conjI impI)
  show "fst (SetAddress d None n a) = None" by (simp add: SetAddress_ok)
  show "parcel (snd (SetAddress d None n a))
       = map (\<lambda>r. if Number r = n \<and> Status r = ParcelStatusRegistered
                   then r\<lparr>Address := a\<rparr> else r) (parcel d)"
    by (simp add: SetAddress_ok)
next
  assume "Get d None None n = (r, None)"
  then show "Get (snd (SetAddress d None n a)) None None n
          = (if Status r = ParcelStatusRegistered then r\<lparr>Address := a\<rparr> else r, None)"
    by (rule SetAddress_then_Get)
next
  assume h: "\<forall>r\<in>set (parcel d). Number r = n \<longrightarrow> Status r \<noteq> ParcelStatusRegistered"
  show "SetAddress d None n a = (None, d)" using h by (rule SetAddress_noop(1))
  show "rowsAffected (fst (execute d (UPDATE_address a n ParcelStatusRegistered))) = 0"
    using h by (rule SetAddress_noop(2))
qed

theorem SetAddress_registered_gate_witness:
  "Get demoDB None None 1 = (getTestParcel\<lparr>Number := 1\<rparr>, None)
   \<and> Get (snd (SetAddress demoDB None 1 ''new test address'')) None None 1
       = (getTestParcel\<lparr>Number := 1, Address := ''new test address''\<rparr>, None)
   \<and> \<not> (\<exists>r\<in>set (parcel demoDB). Number r = 2 \<and> Status r = ParcelStatusRegistered)
   \<and> SetAddress demoDB None 2 ''new test address'' = (None, demoDB)
   \<and> rowsAffected (fst (execute demoDB (UPDATE_address ''new test address'' 2 ParcelStatusRegistered))) = 0"
  using SetAddress_registered_gate[where d = demoDB and n = 1 and a = "''new test address''"
      and r = "getTestParcel\<lparr>Number := 1\<rparr>"]
    SetAddress_registered_gate[where d = demoDB and n = 2 and a = "''new test address''"]
  by (simp add: model_defs)

text \<open>
  Claim C5 (status update). When the backend serves the statement, \<open>SetStatus\<close> returns
  nil for every number and every string \<open>s\<close>, whatever the stored status is. If the
  number exists, \<open>Get\<close> afterwards succeeds with \<open>Status = s\<close>, and the row it returns is
  the one it returned before with the status replaced. If the number does not exist,
  the database is unchanged and the statement affected zero rows.
\<close>

theorem SetStatus_unconditional:
  "fst (SetStatus d None n s) = None
   \<and> (Get d None None n = (r, None) \<longrightarrow>
        Get (snd (SetStatus d None n s)) None None n = (r\<lparr>Status := s\<rparr>, None))
   \<and> ((\<exists>x\<in>set (parcel d). Number x = n) \<longrightarrow>
        snd (Get (snd (SetStatus d None n s)) None None n) = None
        \<and> Status (fst (Get (snd (SetStatus d None n s)) None None n)) = s)
   \<and> ((\<forall>x\<in>set (parcel d). Number x \<noteq> n) \<longrightarrow>
        SetStatus d None n s = (None, d)
        \<and> rowsAffected (fst (execute d (UPDATE_status s n))) = 0)"
proof (intro conjI impI)
  show "fst (SetStatus d None n s) = None" by (simp add: SetStatus_ok)
next
  assume "Get d None None n = (r, None)"
  then show "Get (snd (SetStatus d None n s)) None None n = (r\<lparr>Status := s\<rparr>, None)"
    by (rule SetStatus_then_Get)
next
  assume "\<exists>x\<in>set (parcel d). Number x = n"
  then obtain x where x: "Get d None None n = (x, None)" using Get_exists by blast
  have g: "Get (snd (SetStatus d None n s)) None None n = (x\<lparr>Status := s\<rparr>, None)"
    using x by (rule SetStatus_then_Get)
  show "snd (Get (snd (SetStatus d None n s)) None None n) = None" by (simp add: g)
  show "Status (fst (Get (snd (SetStatus d None n s)) None None n)) = s" by (simp add: g)
next
  assume h: "\<forall>x\<in>set (parcel d). Number x \<noteq> n"
  show "SetStatus d None n s = (None, d)" using h by (rule SetStatus_noop(1))
  show "rowsAffected (fst (execute d (UPDATE_status s n))) = 0" using h by (rule SetStatus_noop(2))
qed

theorem SetStatus_unconditional_witness:
  "Get demoDB None None 1 = (getTestParcel\<lparr>Number := 1\<rparr>, None)
   \<and> (\<exists>x\<in>set (parcel demoDB). Number x = 1)
   \<and> Get (snd (SetStatus demoDB None 1 ''lost'')) None None 1
       = (getTestParcel\<lparr>Number := 1, Status := ''lost''\<rparr>, None)
   \<and> \<not> (\<exists>x\<in>set (parcel demoDB). Number x = 5)
   \<and> SetStatus demoDB None 5 ''lost'' = (None, demoDB)
   \<and> rowsAffected (fst (execute demoDB (UPDATE_status ''lost'' 5))) = 0"
  using SetStatus_unconditional[where d = demoDB and n = 1 and s = "''lost''"
      and r = "getTestParcel\<lparr>Number := 1\<rparr>"]
    SetStatus_unconditional[where d = demoDB and n = 5 and s = "''lost''"]
  by (simp add: model_defs)

lemma scanLoop_all_fetched: "scanLoop res (map Fetched xs) = Inr (res @ xs)"
  by (induction xs arbitrary: res) simp_all

lemma scanLoop_unscannable:
  "scanLoop res (map Fetched xs @ Unscannable r j m # ys) = Inl (res @ xs, DriverError m)"
  by (induction xs arbitrary: res) simp_all

lemma GetByClient_ok:
  "GetByClient d None None c = (filter (\<lambda>r. Client r = c) (parcel d), None)"
  by (simp add: GetByClient_def ParcelStore_GetByClient_def handle_defs Query_def scanLoop_all_fetched)

lemma GetByClient_query_fault:
  "GetByClient d (Some m) rf c = ([], Some (DriverError m))"
  by (simp add: GetByClient_def ParcelStore_GetByClient_def handle_defs Query_def)

lemma GetByClient_scan_fault:
  "k < length (filter (\<lambda>r. Client r = c) (parcel d)) \<Longrightarrow>
   GetByClient d None (Some (ScanFails k j m)) c
     = (take k (filter (\<lambda>r. Client r = c) (parcel d)), Some (DriverError m))"
  by (simp add: GetByClient_def ParcelStore_GetByClient_def handle_defs Query_def scanLoop_unscannable)

lemma GetByClient_next_fault:
  "GetByClient d None (Some (NextFails k m)) c
     = (take k (filter (\<lambda>r. Client r = c) (parcel d)), Some (DriverError m))"
  by (simp add: GetByClient_def ParcelStore_GetByClient_def handle_defs Query_def scanLoop_all_fetched)

text \<open>
  Claim C6 (client filter). When the backend serves the query and the reading,
  \<open>GetByClient c\<close> returns a nil error and the stored rows whose \<open>Client\<close> is \<open>c\<close>, in
  storage order: a row is in the result exactly when it is stored with that client.
  When there is none the result is the empty slice with a nil error. A parcel added by
  \<open>Add\<close> appears at the end of its own client's result with the fields it was added
  with and the number \<open>Add\<close> returned, and in no other client's result.
\<close>

theorem GetByClient_exact:
  "GetByClient d None None c = (filter (\<lambda>r. Client r = c) (parcel d), None)
   \<and> set (fst (GetByClient d None None c)) = {r \<in> set (parcel d). Client r = c}
   \<and> ((\<forall>r\<in>set (parcel d). Client r \<noteq> c) \<longrightarrow> GetByClient d None None c = ([], None))
   \<and> (Add d None None p = ((n, None), d') \<longrightarrow>
        GetByClient d' None None c
          = (fst (GetByClient d None None c) @ (if Client p = c then [p\<lparr>Number := n\<rparr>] else []),
             None))"
proof (intro conjI impI)
  show "GetByClient d None None c = (filter (\<lambda>r. Client r = c) (parcel d), None)"
    by (rule GetByClient_ok)
  show "set (fst (GetByClient d None None c)) = {r \<in> set (parcel d). Client r = c}"
    by (simp add: GetByClient_ok)
next
  assume "\<forall>r\<in>set (parcel d). Client r \<noteq> c"
  then have "filter (\<lambda>r. Client r = c) (parcel d) = []" by (rule filter_none)
  then show "GetByClient d None None c = ([], None)" by (simp add: GetByClient_ok)
next
  assume "Add d None None p = ((n, None), d')"
  then have "parcel d' = parcel d @ [p\<lparr>Number := n\<rparr>]" by (auto simp: Add_ok)
  then show "GetByClient d' None None c
          = (fst (GetByClient d None None c) @ (if Client p = c then [p\<lparr>Number := n\<rparr>] else []),
             None)"
    by (simp add: GetByClient_ok)
qed

theorem GetByClient_exact_witness:
  "\<not> (\<exists>r\<in>set (parcel demoDB). Client r = 8)
   \<and> GetByClient demoDB None None 8 = ([], None)
   \<and> fst (Add demoDB None None getTestParcel) = (3, None)
   \<and> GetByClient (snd (Add demoDB None None getTestParcel)) None None 1000
       = ([getTestParcel\<lparr>Number := 1\<rparr>, getTestParcel\<lparr>Number := 3\<rparr>], None)
   \<and> GetByClient (snd (Add demoDB None None getTestParcel)) None None 7
       = ([getTestParcel\<lparr>Number := 2, Client := 7, Status := ParcelStatusSent\<rparr>], None)"
  using GetByClient_exact[where d = demoDB and c = 8]
    GetByClient_exact[where d = demoDB and c = 1000 and p = getTestParcel and n = 3
      and d' = "snd (Add demoDB None None getTestParcel)"]
    GetByClient_exact[where d = demoDB and c = 7 and p = getTestParcel and n = 3
      and d' = "snd (Add demoDB None None getTestParcel)"]
  by (simp add: model_defs)

text \<open>
  Claim C9 (partial result). When the scan of row \<open>k\<close> fails, at whatever column, or the
  iteration ends with an error after \<open>k\<close> rows, \<open>GetByClient\<close> returns that error together
  with the first \<open>k\<close> parcels of the result it would have returned.
\<close>

theorem GetByClient_partial_on_error:
  "(k < length (filter (\<lambda>r. Client r = c) (parcel d)) \<longrightarrow>
      GetByClient d None (Some (ScanFails k j m)) c
        = (take k (fst (GetByClient d None None c)), Some (DriverError m)))
   \<and> GetByClient d None (Some (NextFails k m)) c
        = (take k (fst (GetByClient d None None c)), Some (DriverError m))"
  by (simp add: GetByClient_scan_fault GetByClient_next_fault GetByClient_ok)

theorem GetByClient_partial_on_error_witness:
  "(1::nat) < length (filter (\<lambda>r. Client r = 1000) (parcel (snd (Add demoDB None None getTestParcel))))
   \<and> GetByClient (snd (Add demoDB None None getTestParcel)) None (Some (ScanFails 1 2 ''bad column'')) 1000
       = ([getTestParcel\<lparr>Number := 1\<rparr>], Some (DriverError ''bad column''))
   \<and> GetByClient (snd (Add demoDB None None getTestParcel)) None (Some (NextFails 1 ''connection lost'')) 1000
       = ([getTestParcel\<lparr>Number := 1\<rparr>], Some (DriverError ''connection lost''))"
  using GetByClient_partial_on_error[where d = "snd (Add demoDB None None getTestParcel)"
      and c = 1000 and k = 1 and m = "''bad column''"]
    GetByClient_partial_on_error[where d = "snd (Add demoDB None None getTestParcel)"
      and c = 1000 and k = 1 and m = "''connection lost''"]
  by (simp add: model_defs)

lemma Add_exec_fault: "Add d (Some m) lf p = ((0, Some (DriverError m)), d)"
  by (simp add: Add_def ParcelStore_Add_def handle_defs Exec_fault)

lemma Add_id_fault:
  "Add d None (Some m) p = ((0, Some (DriverError m)), snd (Add d None None p))"
  by (simp add: Add_def ParcelStore_Add_def handle_defs Exec_ok LastInsertId_def)

lemma Get_query_fault: "Get d (Some m) rf n = (zeroParcel, Some (DriverError m))"
  by (simp add: Get_def ParcelStore_Get_def handle_defs QueryRow_def Query_def Row_Scan_def)

lemma Get_next_fault: "Get d None (Some (NextFails 0 m)) n = (zeroParcel, Some (DriverError m))"
  by (simp add: Get_def ParcelStore_Get_def handle_defs QueryRow_def Query_def Row_Scan_def)

lemma Get_scan_fault:
  assumes "Get d None None n = (r, None)"
  shows "Get d None (Some (ScanFails 0 j m)) n = (scanColumns j r zeroParcel, Some (DriverError m))"
proof -
  from assms obtain rs where f: "filter (\<lambda>r. Number r = n) (parcel d) = r # rs"
    by (auto simp: Get_ok split: list.splits)
  then show ?thesis
    by (simp add: Get_def ParcelStore_Get_def handle_defs QueryRow_def Query_def Row_Scan_def)
qed

lemma ParcelStore_Add_failed_Exec:
  "ParcelStore_Add \<lparr>tables = d, pending = (Some m, rf) # fs\<rparr> p
     = ((0, Some (DriverError m)), \<lparr>tables = d, pending = fs\<rparr>)"
  by (simp add: ParcelStore_Add_def handle_defs Exec_fault)

lemma ParcelStore_Add_two_calls:
  "ParcelStore_Add \<lparr>tables = d, pending = (None, rf) # (lf, rf') # fs\<rparr> p
     = (fst (Add d None lf p), \<lparr>tables = snd (Add d None lf p), pending = fs\<rparr>)"
  by (cases lf) (simp_all add: Add_def ParcelStore_Add_def handle_defs Exec_ok LastInsertId_def)

lemma ParcelStore_Get_one_call:
  "ParcelStore_Get \<lparr>tables = d, pending = (qf, rf) # fs\<rparr> n
     = (Get d qf rf n, \<lparr>tables = d, pending = fs\<rparr>)"
  by (simp add: Get_def ParcelStore_Get_def handle_defs split: prod.splits option.splits)

lemma ParcelStore_GetByClient_one_call:
  "ParcelStore_GetByClient \<lparr>tables = d, pending = (qf, rf) # fs\<rparr> c
     = (GetByClient d qf rf c, \<lparr>tables = d, pending = fs\<rparr>)"
  by (simp add: GetByClient_def ParcelStore_GetByClient_def handle_defs
      split: prod.splits option.splits sum.splits)

lemma ParcelStore_SetStatus_one_call:
  "ParcelStore_SetStatus \<lparr>tables = d, pending = (ef, rf) # fs\<rparr> n st
     = (fst (SetStatus d ef n st), \<lparr>tables = snd (SetStatus d ef n st), pending = fs\<rparr>)"
  by (cases ef) (simp_all add: SetStatus_def ParcelStore_SetStatus_def handle_defs Exec_ok Exec_fault)

lemma ParcelStore_SetAddress_one_call:
  "ParcelStore_SetAddress \<lparr>tables = d, pending = (ef, rf) # fs\<rparr> n a
     = (fst (SetAddress d ef n a), \<lparr>tables = snd (SetAddress d ef n a), pending = fs\<rparr>)"
  by (cases ef) (simp_all add: SetAddress_def ParcelStore_SetAddress_def handle_defs Exec_ok Exec_fault)

lemma ParcelStore_Delete_one_call:
  "ParcelStore_Delete \<lparr>tables = d, pending = (ef, rf) # fs\<rparr> n
     = (fst (Delete d ef n), \<lparr>tables = snd (Delete d ef n), pending = fs\<rparr>)"
  by (cases ef) (simp_all add: Delete_def ParcelStore_Delete_def handle_defs Exec_ok Exec_fault)

text \<open>
  Claim C7 (error propagation), as amended. When the backend call of a method fails,
  the method returns the backend's error as it is and makes no second attempt: the
  outcomes \<open>fs\<close> of later calls are arbitrary, so the error comes back even where a
  repeated call would be served, and the handle returned has used up the one outcome
  of the failed call only. This holds for the statement of \<open>Add\<close>, \<open>SetStatus\<close>, \<open>SetAddress\<close>
  and \<open>Delete\<close>, for the query of \<open>Get\<close> and \<open>GetByClient\<close>, and for a failing row scan or
  row iteration of \<open>Get\<close> and \<open>GetByClient\<close>; in all these cases the database is
  unchanged. The exception is the second call of \<open>Add\<close>: when the insert went through
  and \<open>LastInsertId\<close> fails, \<open>Add\<close> returns 0 and that error, again without a further
  call, and the inserted row stays in the table. The last eight conjuncts say the same
  of a single call with its outcomes written out.
\<close>

theorem storage_errors_propagate:
  "ParcelStore_Add \<lparr>tables = d, pending = (Some m, rf) # fs\<rparr> p
     = ((0, Some (DriverError m)), \<lparr>tables = d, pending = fs\<rparr>)
   \<and> ParcelStore_Get \<lparr>tables = d, pending = (Some m, rf) # fs\<rparr> n
     = ((zeroParcel, Some (DriverError m)), \<lparr>tables = d, pending = fs\<rparr>)
   \<and> ParcelStore_GetByClient \<lparr>tables = d, pending = (Some m, rf) # fs\<rparr> c
     = (([], Some (DriverError m)), \<lparr>tables = d, pending = fs\<rparr>)
   \<and> ParcelStore_SetStatus \<lparr>tables = d, pending = (Some m, rf) # fs\<rparr> n s
     = (Some (DriverError m), \<lparr>tables = d, pending = fs\<rparr>)
   \<and> ParcelStore_SetAddress \<lparr>tables = d, pending = (Some m, rf) # fs\<rparr> n a
     = (Some (DriverError m), \<lparr>tables = d, pending = fs\<rparr>)
   \<and> ParcelStore_Delete \<lparr>tables = d, pending = (Some m, rf) # fs\<rparr> n
     = (Some (DriverError m), \<lparr>tables = d, pending = fs\<rparr>)
   \<and> ParcelStore_Get \<lparr>tables = d, pending = (None, Some (NextFails 0 m)) # fs\<rparr> n
     = ((zeroParcel, Some (DriverError m)), \<lparr>tables = d, pending = fs\<rparr>)
   \<and> (Get d None None n = (r, None) \<longrightarrow>
        ParcelStore_Get \<lparr>tables = d, pending = (None, Some (ScanFails 0 j m)) # fs\<rparr> n
          = ((scanColumns j r zeroParcel, Some (DriverError m)), \<lparr>tables = d, pending = fs\<rparr>))
   \<and> (k < length (filter (\<lambda>r. Client r = c) (parcel d)) \<longrightarrow>
        ParcelStore_GetByClient \<lparr>tables = d, pending = (None, Some (ScanFails k j m)) # fs\<rparr> c
          = ((take k (filter (\<lambda>r. Client r = c) (parcel d)), Some (DriverError m)),
             \<lparr>tables = d, pending = fs\<rparr>))
   \<and> ParcelStore_GetByClient \<lparr>tables = d, pending = (None, Some (NextFails k m)) # fs\<rparr> c
     = ((take k (filter (\<lambda>r. Client r = c) (parcel d)), Some (DriverError m)),
        \<lparr>tables = d, pending = fs\<rparr>)
   \<and> ParcelStore_Add \<lparr>tables = d, pending = (None, rf) # (Some m, rf') # fs\<rparr> p
     = ((0, Some (DriverError m)),
        \<lparr>tables = d\<lparr>parcel := parcel d @ [p\<lparr>Number := nextNumber d\<rparr>], seq := nextNumber d\<rparr>,
         pending = fs\<rparr>)
   \<and> Add d (Some m) lf p = ((0, Some (DriverError m)), d)
   \<and> Get d (Some m) rf n = (zeroParcel, Some (DriverError m))
   \<and> Get d None (Some (NextFails 0 m)) n = (zeroParcel, Some (DriverError m))
   \<and> GetByClient d (Some m) rf c = ([], Some (DriverError m))
   \<and> SetStatus d (Some m) n s = (Some (DriverError m), d)
   \<and> SetAddress d (Some m) n a = (Some (DriverError m), d)
   \<and> Delete d (Some m) n = (Some (DriverError m), d)
   \<and> Add d None (Some m) p
       = ((0, Some (DriverError m)),
          d\<lparr>parcel := parcel d @ [p\<lparr>Number := nextNumber d\<rparr>], seq := nextNumber d\<rparr>)"
proof (intro conjI impI)
  show "ParcelStore_Add \<lparr>tables = d, pending = (Some m, rf) # fs\<rparr> p
     = ((0, Some (DriverError m)), \<lparr>tables = d, pending = fs\<rparr>)"
    by (rule ParcelStore_Add_failed_Exec)
  show "ParcelStore_Get \<lparr>tables = d, pending = (Some m, rf) # fs\<rparr> n
     = ((zeroParcel, Some (DriverError m)), \<lparr>tables = d, pending = fs\<rparr>)"
    by (simp add: ParcelStore_Get_one_call Get_query_fault)
  show "ParcelStore_GetByClient \<lparr>tables = d, pending = (Some m, rf) # fs\<rparr> c
     = (([], Some (DriverError m)), \<lparr>tables = d, pending = fs\<rparr>)"
    by (simp add: ParcelStore_GetByClient_one_call GetByClient_query_fault)
  show "ParcelStore_SetStatus \<lparr>tables = d, pending = (Some m, rf) # fs\<rparr> n s
     = (Some (DriverError m), \<lparr>tables = d, pending = fs\<rparr>)"
    by (simp add: ParcelStore_SetStatus_one_call SetStatus_fault)
  show "ParcelStore_SetAddress \<lparr>tables = d, pending = (Some m, rf) # fs\<rparr> n a
     = (Some (DriverError m), \<lparr>tables = d, pending = fs\<rparr>)"
    by (simp add: ParcelStore_SetAddress_one_call SetAddress_fault)
  show "ParcelStore_Delete \<lparr>tables = d, pending = (Some m, rf) # fs\<rparr> n
     = (Some (DriverError m), \<lparr>tables = d, pending = fs\<rparr>)"
    by (simp add: ParcelStore_Delete_one_call Delete_fault)
  show "ParcelStore_Get \<lparr>tables = d, pending = (None, Some (NextFails 0 m)) # fs\<rparr> n
     = ((zeroParcel, Some (DriverError m)), \<lparr>tables = d, pending = fs\<rparr>)"
    by (simp add: ParcelStore_Get_one_call Get_next_fault)
  show "ParcelStore_GetByClient \<lparr>tables = d, pending = (None, Some (NextFails k m)) # fs\<rparr> c
     = ((take k (filter (\<lambda>r. Client r = c) (parcel d)), Some (DriverError m)),
        \<lparr>tables = d, pending = fs\<rparr>)"
    by (simp add: ParcelStore_GetByClient_one_call GetByClient_next_fault)
  show "ParcelStore_Add \<lparr>tables = d, pending = (None, rf) # (Some m, rf') # fs\<rparr> p
     = ((0, Some (DriverError m)),
        \<lparr>tables = d\<lparr>parcel := parcel d @ [p\<lparr>Number := nextNumber d\<rparr>], seq := nextNumber d\<rparr>,
         pending = fs\<rparr>)"
    by (simp add: ParcelStore_Add_two_calls Add_id_fault Add_ok)
  show "Add d (Some m) lf p = ((0, Some (DriverError m)), d)" by (rule Add_exec_fault)
  show "Get d (Some m) rf n = (zeroParcel, Some (DriverError m))" by (rule Get_query_fault)
  show "Get d None (Some (NextFails 0 m)) n = (zeroParcel, Some (DriverError m))"
    by (rule Get_next_fault)
  show "GetByClient d (Some m) rf c = ([], Some (DriverError m))" by (rule GetByClient_query_fault)
  show "SetStatus d (Some m) n s = (Some (DriverError m), d)" by (rule SetStatus_fault)
  show "SetAddress d (Some m) n a = (Some (DriverError m), d)" by (rule SetAddress_fault)
  show "Delete d (Some m) n = (Some (DriverError m), d)" by (rule Delete_fault)
  show "Add d None (Some m) p
       = ((0, Some (DriverError m)),
          d\<lparr>parcel := parcel d @ [p\<lparr>Number := nextNumber d\<rparr>], seq := nextNumber d\<rparr>)"
    by (simp add: Add_id_fault Add_ok)
next
  assume "Get d None None n = (r, None)"
  then show "ParcelStore_Get \<lparr>tables = d, pending = (None, Some (ScanFails 0 j m)) # fs\<rparr> n
          = ((scanColumns j r zeroParcel, Some (DriverError m)), \<lparr>tables = d, pending = fs\<rparr>)"
    by (simp add: ParcelStore_Get_one_call Get_scan_fault)
next
  assume "k < length (filter (\<lambda>r. Client r = c) (parcel d))"
  then show "ParcelStore_GetByClient \<lparr>tables = d, pending = (None, Some (ScanFails k j m)) # fs\<rparr> c
          = ((take k (filter (\<lambda>r. Client r = c) (parcel d)), Some (DriverError m)),
             \<lparr>tables = d, pending = fs\<rparr>)"
    by (simp add: ParcelStore_GetByClient_one_call GetByClient_scan_fault)
qed

theorem storage_errors_propagate_witness:
  "Get demoDB None None 1 = (getTestParcel\<lparr>Number := 1\<rparr>, None)
   \<and> ParcelStore_Get \<lparr>tables = demoDB, pending = [(None, Some (ScanFails 0 1 ''bad column'')), (None, None)]\<rparr> 1
       = ((zeroParcel\<lparr>Number := 1\<rparr>, Some (DriverError ''bad column'')),
          \<lparr>tables = demoDB, pending = [(None, None)]\<rparr>)
   \<and> (0::nat) < length (filter (\<lambda>r. Client r = 1000) (parcel demoDB))
   \<and> ParcelStore_GetByClient
         \<lparr>tables = demoDB, pending = [(None, Some (ScanFails 0 1 ''bad column'')), (None, None)]\<rparr> 1000
       = (([], Some (DriverError ''bad column'')), \<lparr>tables = demoDB, pending = [(None, None)]\<rparr>)
   \<and> ParcelStore_SetStatus \<lparr>tables = demoDB, pending = [(Some ''busy'', None), (None, None)]\<rparr> 1 ParcelStatusSent
       = (Some (DriverError ''busy''), \<lparr>tables = demoDB, pending = [(None, None)]\<rparr>)
   \<and> ParcelStore_Add \<lparr>tables = demoDB, pending = [(Some ''busy'', None), (None, None), (None, None)]\<rparr> getTestParcel
       = ((0, Some (DriverError ''busy'')), \<lparr>tables = demoDB, pending = [(None, None), (None, None)]\<rparr>)"
  using storage_errors_propagate[where d = demoDB and n = 1 and r = "getTestParcel\<lparr>Number := 1\<rparr>"
      and j = 1 and m = "''bad column''" and fs = "[(None, None)]" and k = 0 and c = 1000]
    storage_errors_propagate[where d = demoDB and n = 1 and m = "''busy''" and rf = None
      and fs = "[(None, None)]" and s = ParcelStatusSent]
    storage_errors_propagate[where d = demoDB and m = "''busy''" and rf = None
      and fs = "[(None, None), (None, None)]" and p = getTestParcel]
  by (simp add: model_defs)

theorem failed_call_state_unchanged_counterexample:
  "snd (fst (Add emptyDB None (Some ''no id'') getTestParcel)) = Some (DriverError ''no id'')
   \<and> snd (Add emptyDB None (Some ''no id'') getTestParcel) \<noteq> emptyDB
   \<and> Get (snd (Add emptyDB None (Some ''no id'') getTestParcel)) None None 1
       = (getTestParcel\<lparr>Number := 1\<rparr>, None)"
  by (simp add: model_defs)

lemma SetStatus_rows:
  "parcel (snd (SetStatus d ef n s))
     = (case ef of Some m \<Rightarrow> parcel d
        | None \<Rightarrow> map (\<lambda>r. if Number r = n then r\<lparr>Status := s\<rparr> else r) (parcel d))"
  by (cases ef) (simp_all add: SetStatus_ok SetStatus_fault)

lemma SetAddress_rows:
  "parcel (snd (SetAddress d ef n a))
     = (case ef of Some m \<Rightarrow> parcel d
        | None \<Rightarrow> map (\<lambda>r. if Number r = n \<and> Status r = ParcelStatusRegistered
                              then r\<lparr>Address := a\<rparr> else r) (parcel d))"
  by (cases ef) (simp_all add: SetAddress_ok SetAddress_fault)

lemma Delete_rows_any:
  "parcel (snd (Delete d ef n))
     = (case ef of Some m \<Rightarrow> parcel d
        | None \<Rightarrow> filter (\<lambda>r. \<not> (Number r = n \<and> Status r = ParcelStatusRegistered)) (parcel d))"
  by (cases ef) (simp_all add: Delete_ok Delete_fault)

lemma Add_rows:
  "parcel (snd (Add d ef lf p))
     = (case ef of Some m \<Rightarrow> parcel d
        | None \<Rightarrow> parcel d @ [p\<lparr>Number := nextNumber d\<rparr>])"
  by (cases ef; cases lf) (simp_all add: Add_ok Add_exec_fault Add_id_fault)

lemma other_rows_map:
  assumes "\<And>r. P r \<Longrightarrow> Number r = n" and "\<And>r. Number (f r) = Number r"
  shows "filter (\<lambda>r. Number r \<noteq> n) (map (\<lambda>r. if P r then f r else r) xs)
         = filter (\<lambda>r. Number r \<noteq> n) xs"
  using assms by (induction xs) auto

lemma other_rows_filter:
  "filter (\<lambda>r. Number r \<noteq> n) (filter (\<lambda>r. \<not> (Number r = n \<and> Q r)) xs)
     = filter (\<lambda>r. Number r \<noteq> n) xs"
  by (induction xs) auto

lemma key_count: "distinct (map Number xs) \<Longrightarrow> length (filter (\<lambda>r. Number r = n \<and> Q r) xs) \<le> 1"
proof (induction xs)
  case Nil
  then show ?case by simp
next
  case (Cons x xs)
  show ?case
  proof (cases "Number x = n")
    case True
    have "\<forall>y\<in>set xs. \<not> (Number y = n \<and> Q y)"
    proof
      fix y assume "y \<in> set xs"
      then have "Number y \<in> set (map Number xs)" by simp
      moreover have "Number x \<notin> set (map Number xs)" using Cons.prems by simp
      ultimately show "\<not> (Number y = n \<and> Q y)" using True by metis
    qed
    then have "filter (\<lambda>r. Number r = n \<and> Q r) xs = []" by (rule filter_none)
    then show ?thesis by simp
  next
    case False
    with Cons show ?thesis by simp
  qed
qed

lemma changed_count:
  "length (filter (\<lambda>(r, r'). r \<noteq> r') (zip xs (map (\<lambda>r. if P r then f r else r) xs)))
     \<le> length (filter P xs)"
  by (induction xs) auto

lemma changed_none: "length (filter (\<lambda>(r, r'). r \<noteq> r') (zip xs xs)) = 0"
  by (induction xs) auto

lemma SetStatus_changes_one:
  assumes "PrimaryKey d"
  shows "length (filter (\<lambda>(r, r'). r \<noteq> r') (zip (parcel d) (parcel (snd (SetStatus d ef n s))))) \<le> 1"
proof (cases ef)
  case None
  have "length (filter (\<lambda>r. Number r = n \<and> True) (parcel d)) \<le> 1"
    using assms unfolding PrimaryKey_def by (rule key_count)
  then have "length (filter (\<lambda>r. Number r = n) (parcel d)) \<le> 1" by simp
  with changed_count[of "parcel d" "\<lambda>r. Number r = n" "\<lambda>r. r\<lparr>Status := s\<rparr>"]
  show ?thesis using None by (simp add: SetStatus_rows)
next
  case (Some m)
  then show ?thesis by (simp add: SetStatus_rows changed_none)
qed

lemma SetAddress_changes_one:
  assumes "PrimaryKey d"
  shows "length (filter (\<lambda>(r, r'). r \<noteq> r') (zip (parcel d) (parcel (snd (SetAddress d ef n a))))) \<le> 1"
proof (cases ef)
  case None
  have "length (filter (\<lambda>r. Number r = n \<and> Status r = ParcelStatusRegistered) (parcel d)) \<le> 1"
    using assms unfolding PrimaryKey_def by (rule key_count)
  with changed_count[of "parcel d" "\<lambda>r. Number r = n \<and> Status r = ParcelStatusRegistered"
      "\<lambda>r. r\<lparr>Address := a\<rparr>"]
  show ?thesis using None by (simp add: SetAddress_rows)
next
  case (Some m)
  then show ?thesis by (simp add: SetAddress_rows changed_none)
qed

lemma Delete_removes_one:
  assumes "PrimaryKey d"
  shows "length (parcel d) \<le> length (parcel (snd (Delete d ef n))) + 1"
proof (cases ef)
  case None
  have c: "length (filter (\<lambda>r. Number r = n \<and> Status r = ParcelStatusRegistered) (parcel d)) \<le> 1"
    using assms unfolding PrimaryKey_def by (rule key_count)
  have "length (filter (\<lambda>r. Number r = n \<and> Status r = ParcelStatusRegistered) (parcel d))
        + length (filter (\<lambda>r. \<not> (Number r = n \<and> Status r = ParcelStatusRegistered)) (parcel d))
        = length (parcel d)"
    by (rule sum_length_filter_compl)
  with c show ?thesis using None by (simp add: Delete_rows_any)
next
  case (Some m)
  then show ?thesis by (simp add: Delete_rows_any)
qed

text \<open>
  Claim C10 (one number). Whether the backend serves the statement or fails, the rows
  whose number differs from the argument are the same, in the same order, before and
  after \<open>SetStatus\<close>, \<open>SetAddress\<close> and \<open>Delete\<close>; the two updates keep the number of rows.
  Under the primary key at most one row is changed by an update and at most one row is
  removed by \<open>Delete\<close>.
\<close>

theorem writes_touch_one_number:
  "filter (\<lambda>r. Number r \<noteq> n) (parcel (snd (SetStatus d ef n s)))
     = filter (\<lambda>r. Number r \<noteq> n) (parcel d)
   \<and> filter (\<lambda>r. Number r \<noteq> n) (parcel (snd (SetAddress d ef n a)))
     = filter (\<lambda>r. Number r \<noteq> n) (parcel d)
   \<and> filter (\<lambda>r. Number r \<noteq> n) (parcel (snd (Delete d ef n)))
     = filter (\<lambda>r. Number r \<noteq> n) (parcel d)
   \<and> length (parcel (snd (SetStatus d ef n s))) = length (parcel d)
   \<and> length (parcel (snd (SetAddress d ef n a))) = length (parcel d)
   \<and> (PrimaryKey d \<longrightarrow>
        length (filter (\<lambda>(r, r'). r \<noteq> r') (zip (parcel d) (parcel (snd (SetStatus d ef n s))))) \<le> 1
        \<and> length (filter (\<lambda>(r, r'). r \<noteq> r') (zip (parcel d) (parcel (snd (SetAddress d ef n a))))) \<le> 1
        \<and> length (parcel d) \<le> length (parcel (snd (Delete d ef n))) + 1)"
proof (intro conjI impI)
  show "filter (\<lambda>r. Number r \<noteq> n) (parcel (snd (SetStatus d ef n s)))
     = filter (\<lambda>r. Number r \<noteq> n) (parcel d)"
    by (cases ef) (simp_all add: SetStatus_rows other_rows_map)
  show "filter (\<lambda>r. Number r \<noteq> n) (parcel (snd (SetAddress d ef n a)))
     = filter (\<lambda>r. Number r \<noteq> n) (parcel d)"
  proof (cases ef)
    case None
    have "filter (\<lambda>r. Number r \<noteq> n)
            (map (\<lambda>r. if Number r = n \<and> Status r = ParcelStatusRegistered
                        then r\<lparr>Address := a\<rparr> else r) (parcel d))
          = filter (\<lambda>r. Number r \<noteq> n) (parcel d)"
      by (rule other_rows_map) simp_all
    with None show ?thesis by (simp add: SetAddress_rows)
  next
    case (Some m)
    then show ?thesis by (simp add: SetAddress_rows)
  qed
  show "filter (\<lambda>r. Number r \<noteq> n) (parcel (snd (Delete d ef n)))
     = filter (\<lambda>r. Number r \<noteq> n) (parcel d)"
    by (cases ef) (simp_all only: Delete_rows_any other_rows_filter option.case)
  show "length (parcel (snd (SetStatus d ef n s))) = length (parcel d)"
    by (cases ef) (simp_all add: SetStatus_rows)
  show "length (parcel (snd (SetAddress d ef n a))) = length (parcel d)"
    by (cases ef) (simp_all add: SetAddress_rows)
next
  assume pk: "PrimaryKey d"
  show "length (filter (\<lambda>(r, r'). r \<noteq> r') (zip (parcel d) (parcel (snd (SetStatus d ef n s))))) \<le> 1"
    using pk by (rule SetStatus_changes_one)
  show "length (filter (\<lambda>(r, r'). r \<noteq> r') (zip (parcel d) (parcel (snd (SetAddress d ef n a))))) \<le> 1"
    using pk by (rule SetAddress_changes_one)
  show "length (parcel d) \<le> length (parcel (snd (Delete d ef n))) + 1"
    using pk by (rule Delete_removes_one)
qed

theorem writes_touch_one_number_witness:
  "PrimaryKey demoDB
   \<and> parcel (snd (SetStatus demoDB None 1 ParcelStatusSent))
       = [getTestParcel\<lparr>Number := 1, Status := ParcelStatusSent\<rparr>,
          getTestParcel\<lparr>Number := 2, Client := 7, Status := ParcelStatusSent\<rparr>]
   \<and> length (filter (\<lambda>(r, r'). r \<noteq> r')
        (zip (parcel demoDB) (parcel (snd (SetStatus demoDB None 1 ParcelStatusSent))))) \<le> 1
   \<and> length (filter (\<lambda>(r, r'). r \<noteq> r')
        (zip (parcel demoDB) (parcel (snd (SetAddress demoDB None 1 ''elsewhere''))))) \<le> 1
   \<and> length (parcel demoDB) \<le> length (parcel (snd (Delete demoDB None 1))) + 1"
  using writes_touch_one_number[where d = demoDB and ef = None and n = 1
      and s = ParcelStatusSent and a = "''elsewhere''"]
  by (simp add: model_defs)

lemma SetStatus_only_status:
  "map (\<lambda>r. r\<lparr>Status := x\<rparr>) (parcel (snd (SetStatus d ef n s)))
     = map (\<lambda>r. r\<lparr>Status := x\<rparr>) (parcel d)"
  by (cases ef) (auto simp: SetStatus_rows)

lemma SetAddress_only_address:
  "map (\<lambda>r. r\<lparr>Address := x\<rparr>) (parcel (snd (SetAddress d ef n a)))
     = map (\<lambda>r. r\<lparr>Address := x\<rparr>) (parcel d)"
  by (cases ef) (auto simp: SetAddress_rows)

lemma Delete_subseq: "subseq (parcel (snd (Delete d ef n))) (parcel d)"
  by (cases ef) (simp_all add: Delete_rows_any)

lemma SetStatus_fixed:
  "map fixedColumns (parcel (snd (SetStatus d ef n s))) = map fixedColumns (parcel d)"
  by (cases ef) (auto simp: SetStatus_rows fixedColumns_def)

lemma SetAddress_fixed:
  "map fixedColumns (parcel (snd (SetAddress d ef n a))) = map fixedColumns (parcel d)"
  by (cases ef) (auto simp: SetAddress_rows fixedColumns_def)

lemma Delete_fixed:
  "subseq (map fixedColumns (parcel (snd (Delete d ef n)))) (map fixedColumns (parcel d))"
  using Delete_subseq by (rule subseq_map)

lemma run_snd_Add: "snd (run d (CallAdd ef lf p # cs)) = snd (run (snd (Add d ef lf p)) cs)"
  by (simp split: prod.splits option.splits)

lemma run_fixed:
  "\<forall>c\<in>set cs. \<not> isAdd c \<Longrightarrow>
   subseq (map fixedColumns (parcel (snd (run d cs)))) (map fixedColumns (parcel d))"
proof (induction cs arbitrary: d)
  case Nil
  then show ?case by simp
next
  case (Cons c cs)
  then have rest: "\<forall>c\<in>set cs. \<not> isAdd c" by simp
  show ?case
  proof (cases c)
    case (CallAdd ef lf p)
    with Cons.prems show ?thesis by simp
  next
    case (CallSetStatus ef n st)
    have "subseq (map fixedColumns (parcel (snd (run (snd (SetStatus d ef n st)) cs))))
            (map fixedColumns (parcel (snd (SetStatus d ef n st))))"
      using rest by (rule Cons.IH)
    then show ?thesis using CallSetStatus by (simp add: SetStatus_fixed)
  next
    case (CallSetAddress ef n a)
    have "subseq (map fixedColumns (parcel (snd (run (snd (SetAddress d ef n a)) cs))))
            (map fixedColumns (parcel (snd (SetAddress d ef n a))))"
      using rest by (rule Cons.IH)
    then show ?thesis using CallSetAddress by (simp add: SetAddress_fixed)
  next
    case (CallDelete ef n)
    have "subseq (map fixedColumns (parcel (snd (run (snd (Delete d ef n)) cs))))
            (map fixedColumns (parcel (snd (Delete d ef n))))"
      using rest by (rule Cons.IH)
    then have "subseq (map fixedColumns (parcel (snd (run (snd (Delete d ef n)) cs))))
            (map fixedColumns (parcel d))"
      using Delete_fixed by (rule subseq_order.trans)
    then show ?thesis using CallDelete by simp
  qed
qed

lemma SetStatus_numbers: "map Number (parcel (snd (SetStatus d ef n s))) = map Number (parcel d)"
  by (cases ef) (auto simp: SetStatus_rows)

lemma SetAddress_numbers: "map Number (parcel (snd (SetAddress d ef n a))) = map Number (parcel d)"
  by (cases ef) (auto simp: SetAddress_rows)

lemma PrimaryKey_SetStatus: "PrimaryKey d \<Longrightarrow> PrimaryKey (snd (SetStatus d ef n s))"
  by (simp add: PrimaryKey_def SetStatus_numbers)

lemma PrimaryKey_SetAddress: "PrimaryKey d \<Longrightarrow> PrimaryKey (snd (SetAddress d ef n a))"
  by (simp add: PrimaryKey_def SetAddress_numbers)

lemma PrimaryKey_Delete: "PrimaryKey d \<Longrightarrow> PrimaryKey (snd (Delete d ef n))"
  by (cases ef) (simp_all add: PrimaryKey_def Delete_rows_any distinct_map_filter)

lemma PrimaryKey_Add: "PrimaryKey d \<Longrightarrow> PrimaryKey (snd (Add d ef lf p))"
proof (cases ef)
  case None
  assume "PrimaryKey d"
  moreover have "nextNumber d \<notin> Number ` set (parcel d)"
    using nextNumber_fresh[of _ d] by force
  ultimately show ?thesis using None by (simp add: PrimaryKey_def Add_rows)
next
  case (Some m)
  assume "PrimaryKey d"
  then show ?thesis using Some by (simp add: PrimaryKey_def Add_rows)
qed

lemma PrimaryKey_run: "PrimaryKey d \<Longrightarrow> PrimaryKey (snd (run d cs))"
proof (induction cs arbitrary: d)
  case Nil
  then show ?case by simp
next
  case (Cons c cs)
  show ?case
  proof (cases c)
    case (CallAdd ef lf p)
    have "PrimaryKey (snd (run (snd (Add d ef lf p)) cs))"
      using Cons.prems by (intro Cons.IH PrimaryKey_Add)
    then show ?thesis using CallAdd by (simp only: run_snd_Add)
  next
    case (CallSetStatus ef n st)
    have "PrimaryKey (snd (run (snd (SetStatus d ef n st)) cs))"
      using Cons.prems by (intro Cons.IH PrimaryKey_SetStatus)
    then show ?thesis using CallSetStatus by simp
  next
    case (CallSetAddress ef n a)
    have "PrimaryKey (snd (run (snd (SetAddress d ef n a)) cs))"
      using Cons.prems by (intro Cons.IH PrimaryKey_SetAddress)
    then show ?thesis using CallSetAddress by simp
  next
    case (CallDelete ef n)
    have "PrimaryKey (snd (run (snd (Delete d ef n)) cs))"
      using Cons.prems by (intro Cons.IH PrimaryKey_Delete)
    then show ?thesis using CallDelete by simp
  qed
qed

text \<open>
  Claim C8 (stable columns). Whether the backend serves the statement or fails,
  \<open>SetStatus\<close> leaves every row equal to what it was up to its \<open>Status\<close>, \<open>SetAddress\<close> leaves
  every row equal to what it was up to its \<open>Address\<close>, and \<open>Delete\<close> leaves the remaining
  rows as they were. Over any sequence of these three calls, the rows that remain
  carry, in order, the \<open>Number\<close>, \<open>Client\<close> and \<open>CreatedAt\<close> they had at the start. The
  primary key is kept by every history, so a number keeps naming the same record.
\<close>

theorem fixed_columns_stable:
  "map (\<lambda>r. r\<lparr>Status := x\<rparr>) (parcel (snd (SetStatus d ef n s)))
     = map (\<lambda>r. r\<lparr>Status := x\<rparr>) (parcel d)
   \<and> map (\<lambda>r. r\<lparr>Address := x\<rparr>) (parcel (snd (SetAddress d ef n a)))
     = map (\<lambda>r. r\<lparr>Address := x\<rparr>) (parcel d)
   \<and> subseq (parcel (snd (Delete d ef n))) (parcel d)
   \<and> ((\<forall>c\<in>set cs. \<not> isAdd c) \<longrightarrow>
        subseq (map fixedColumns (parcel (snd (run d cs)))) (map fixedColumns (parcel d)))
   \<and> (PrimaryKey d \<longrightarrow> PrimaryKey (snd (run d cs)))"
proof (intro conjI impI)
  show "map (\<lambda>r. r\<lparr>Status := x\<rparr>) (parcel (snd (SetStatus d ef n s)))
     = map (\<lambda>r. r\<lparr>Status := x\<rparr>) (parcel d)"
    by (rule SetStatus_only_status)
  show "map (\<lambda>r. r\<lparr>Address := x\<rparr>) (parcel (snd (SetAddress d ef n a)))
     = map (\<lambda>r. r\<lparr>Address := x\<rparr>) (parcel d)"
    by (rule SetAddress_only_address)
  show "subseq (parcel (snd (Delete d ef n))) (parcel d)"
    by (rule Delete_subseq)
next
  assume "\<forall>c\<in>set cs. \<not> isAdd c"
  then show "subseq (map fixedColumns (parcel (snd (run d cs)))) (map fixedColumns (parcel d))"
    by (rule run_fixed)
next
  assume "PrimaryKey d"
  then show "PrimaryKey (snd (run d cs))" by (rule PrimaryKey_run)
qed

theorem fixed_columns_stable_witness:
  "\<not> (\<exists>c\<in>set [CallSetAddress None 2 ''elsewhere'', CallSetStatus None 2 ParcelStatusDelivered,
                  CallDelete None 1]. isAdd c)
   \<and> PrimaryKey demoDB
   \<and> snd (run demoDB [CallSetAddress None 2 ''elsewhere'', CallSetStatus None 2 ParcelStatusDelivered,
                       CallDelete None 1])
       = \<lparr>parcel = [getTestParcel\<lparr>Number := 2, Client := 7, Status := ParcelStatusDelivered\<rparr>],
          seq = 2\<rparr>
   \<and> subseq (map fixedColumns
               (parcel (snd (run demoDB [CallSetAddress None 2 ''elsewhere'',
                  CallSetStatus None 2 ParcelStatusDelivered, CallDelete None 1]))))
        (map fixedColumns (parcel demoDB))
   \<and> PrimaryKey (snd (run demoDB [CallSetAddress None 2 ''elsewhere'',
                  CallSetStatus None 2 ParcelStatusDelivered, CallDelete None 1]))"
proof -
  let ?cs = "[CallSetAddress None 2 ''elsewhere'', CallSetStatus None 2 ParcelStatusDelivered,
              CallDelete None 1]"
  have h1: "\<forall>c\<in>set ?cs. \<not> isAdd c" by simp
  have h2: "PrimaryKey demoDB" by (simp add: model_defs)
  have e: "snd (run demoDB ?cs)
       = \<lparr>parcel = [getTestParcel\<lparr>Number := 2, Client := 7, Status := ParcelStatusDelivered\<rparr>],
          seq = 2\<rparr>"
    by (simp add: model_defs ParcelStatusDelivered_def)
  from fixed_columns_stable[where d = demoDB and cs = ?cs] h1 h2
  have "subseq (map fixedColumns (parcel (snd (run demoDB ?cs)))) (map fixedColumns (parcel demoDB))"
    and "PrimaryKey (snd (run demoDB ?cs))"
    by blast+
  with h1 h2 e show ?thesis by blast
qed

lemma Get_ErrNoRows_means_missing:
  assumes "snd (Get d qf rf n) = Some ErrNoRows"
  shows "qf = None \<and> (\<forall>r\<in>set (parcel d). Number r \<noteq> n)"
proof (cases qf)
  case (Some m)
  with assms show ?thesis by (simp add: Get_query_fault)
next
  case None
  let ?xs = "filter (\<lambda>r. Number r = n) (parcel d)"
  have "?xs = []"
  proof (cases rf)
    case None
    with assms \<open>qf = None\<close> show ?thesis
      by (simp add: Get_ok split: list.splits)
  next
    case (Some f)
    show ?thesis
    proof (cases f)
      case (ScanFails k j m)
      with assms Some \<open>qf = None\<close> show ?thesis
        by (cases ?xs; cases "take k ?xs")
           (auto simp: Get_def ParcelStore_Get_def handle_defs QueryRow_def Query_def Row_Scan_def split: if_splits)
    next
      case (NextFails k m)
      with assms Some \<open>qf = None\<close> show ?thesis
        by (cases "take k ?xs")
           (auto simp: Get_def ParcelStore_Get_def handle_defs QueryRow_def Query_def Row_Scan_def)
    qed
  qed
  then show ?thesis using None by (auto simp: filter_empty_conv)
qed

lemma Rows_Scan_error: "Rows_Scan x p = (p', Some e) \<Longrightarrow> e \<noteq> ErrNoRows"
  by (cases x) auto

lemma scanLoop_error: "scanLoop res xs = Inl (r, e) \<Longrightarrow> e \<noteq> ErrNoRows"
proof (induction xs arbitrary: res)
  case Nil
  then show ?case by simp
next
  case (Cons x xs)
  show ?case
  proof (cases x)
    case (Fetched y)
    with Cons show ?thesis by simp
  next
    case (Unscannable y j m)
    with Cons.prems show ?thesis by auto
  qed
qed

lemma GetByClient_never_ErrNoRows: "snd (GetByClient d qf rf c) \<noteq> Some ErrNoRows"
  by (auto simp: GetByClient_def ParcelStore_GetByClient_def handle_defs Query_def dest: scanLoop_error
      split: option.splits sum.splits prod.splits)

lemma Add_never_ErrNoRows: "snd (fst (Add d ef lf p)) \<noteq> Some ErrNoRows"
  by (cases ef; cases lf) (simp_all add: Add_ok Add_exec_fault Add_id_fault)

lemma SetStatus_never_ErrNoRows: "fst (SetStatus d ef n s) \<noteq> Some ErrNoRows"
  by (cases ef) (simp_all add: SetStatus_ok SetStatus_fault)

lemma SetAddress_never_ErrNoRows: "fst (SetAddress d ef n a) \<noteq> Some ErrNoRows"
  by (cases ef) (simp_all add: SetAddress_ok SetAddress_fault)

lemma Delete_never_ErrNoRows: "fst (Delete d ef n) \<noteq> Some ErrNoRows"
  by (cases ef) (simp_all add: Delete_ok Delete_fault)

lemma run_numbers:
  "\<forall>c\<in>set cs. \<not> keyLost c \<Longrightarrow>
   set (map Number (parcel (snd (run d cs)))) \<subseteq> set (map Number (parcel d)) \<union> set (fst (run d cs))"
proof (induction cs arbitrary: d)
  case Nil
  then show ?case by simp
next
  case (Cons c cs)
  then have rest: "\<forall>c\<in>set cs. \<not> keyLost c" by simp
  show ?case
  proof (cases c)
    case (CallAdd ef lf p)
    show ?thesis
    proof (cases ef)
      case (Some m)
      have "set (map Number (parcel (snd (run d cs)))) \<subseteq> set (map Number (parcel d)) \<union> set (fst (run d cs))"
        using rest by (rule Cons.IH)
      then show ?thesis using CallAdd Some by (simp add: Add_exec_fault)
    next
      case None
      with Cons.prems CallAdd have lf: "lf = None" by (cases lf) simp_all
      let ?d' = "d\<lparr>parcel := parcel d @ [p\<lparr>Number := nextNumber d\<rparr>], seq := nextNumber d\<rparr>"
      have "set (map Number (parcel (snd (run ?d' cs)))) \<subseteq> set (map Number (parcel ?d')) \<union> set (fst (run ?d' cs))"
        using rest by (rule Cons.IH)
      moreover obtain ns' d'' where rr: "run ?d' cs = (ns', d'')" by (cases "run ?d' cs")
      moreover have "run d (c # cs) = (nextNumber d # ns', d'')"
        using CallAdd None lf rr by (simp add: Add_ok)
      ultimately have "set (map Number (parcel d''))
          \<subseteq> insert (nextNumber d) (set (map Number (parcel d))) \<union> set ns'"
        by simp
      then show ?thesis using \<open>run d (c # cs) = (nextNumber d # ns', d'')\<close> by auto
    qed
  next
    case (CallSetStatus ef n st)
    have "set (map Number (parcel (snd (run (snd (SetStatus d ef n st)) cs))))
          \<subseteq> set (map Number (parcel (snd (SetStatus d ef n st)))) \<union> set (fst (run (snd (SetStatus d ef n st)) cs))"
      using rest by (rule Cons.IH)
    then show ?thesis using CallSetStatus by (simp add: SetStatus_numbers)
  next
    case (CallSetAddress ef n a)
    have "set (map Number (parcel (snd (run (snd (SetAddress d ef n a)) cs))))
          \<subseteq> set (map Number (parcel (snd (SetAddress d ef n a)))) \<union> set (fst (run (snd (SetAddress d ef n a)) cs))"
      using rest by (rule Cons.IH)
    then show ?thesis using CallSetAddress by (simp add: SetAddress_numbers)
  next
    case (CallDelete ef n)
    have "set (map Number (parcel (snd (run (snd (Delete d ef n)) cs))))
          \<subseteq> set (map Number (parcel (snd (Delete d ef n)))) \<union> set (fst (run (snd (Delete d ef n)) cs))"
      using rest by (rule Cons.IH)
    moreover have "set (map Number (parcel (snd (Delete d ef n)))) \<subseteq> set (map Number (parcel d))"
      by (cases ef) (auto simp: Delete_rows_any)
    ultimately show ?thesis using CallDelete by auto
  qed
qed

lemma never_returned_not_stored:
  assumes ok: "\<forall>c\<in>set cs. \<not> keyLost c" and r: "run emptyDB cs = (ns, d)" and k: "k \<notin> set ns"
  shows "Get d None None k = (zeroParcel, Some ErrNoRows)"
proof (rule Get_none, rule ballI)
  fix x assume "x \<in> set (parcel d)"
  then have "Number x \<in> set (map Number (parcel (snd (run emptyDB cs))))" using r by simp
  then have "Number x \<in> set (map Number (parcel emptyDB)) \<union> set (fst (run emptyDB cs))"
    using run_numbers[OF ok] by blast
  then have "Number x \<in> set ns" using r by (simp add: emptyDB_def)
  with k show "Number x \<noteq> k" by blast
qed

text \<open>
  Claim C4 (not found), as amended. If no stored row has the number, \<open>Get\<close> returns
  \<open>ErrNoRows\<close>. \<open>Get\<close> returns \<open>ErrNoRows\<close> only then, and only when the query itself was
  served: a failing query gives the backend's error, which is a different value. No
  other method returns \<open>ErrNoRows\<close>, whatever the backend does. A number that no \<open>Add\<close>
  returned has no stored row, and \<open>Get\<close> returns \<open>ErrNoRows\<close> for it, in a database built
  from the empty one by calls in which every \<open>Add\<close> whose insert went through could
  read the generated key.
\<close>

theorem Get_not_found:
  "((\<forall>r\<in>set (parcel d). Number r \<noteq> n) \<longrightarrow> Get d None None n = (zeroParcel, Some ErrNoRows))
   \<and> (snd (Get d qf rf n) = Some ErrNoRows \<longrightarrow> qf = None \<and> (\<forall>r\<in>set (parcel d). Number r \<noteq> n))
   \<and> Get d (Some m) rf n = (zeroParcel, Some (DriverError m))
   \<and> DriverError m \<noteq> ErrNoRows
   \<and> snd (fst (Add d ef lf p)) \<noteq> Some ErrNoRows
   \<and> snd (GetByClient d qf rf c) \<noteq> Some ErrNoRows
   \<and> fst (SetStatus d ef n s) \<noteq> Some ErrNoRows
   \<and> fst (SetAddress d ef n a) \<noteq> Some ErrNoRows
   \<and> fst (Delete d ef n) \<noteq> Some ErrNoRows
   \<and> ((\<forall>c\<in>set cs. \<not> keyLost c) \<and> run emptyDB cs = (ns, d') \<and> k \<notin> set ns \<longrightarrow>
        Get d' None None k = (zeroParcel, Some ErrNoRows))"
proof (intro conjI impI)
  assume "\<forall>r\<in>set (parcel d). Number r \<noteq> n"
  then show "Get d None None n = (zeroParcel, Some ErrNoRows)" by (rule Get_none)
next
  assume h: "snd (Get d qf rf n) = Some ErrNoRows"
  show "qf = None" using Get_ErrNoRows_means_missing[OF h] by simp
  show "\<forall>r\<in>set (parcel d). Number r \<noteq> n" using Get_ErrNoRows_means_missing[OF h] by simp
next
  show "Get d (Some m) rf n = (zeroParcel, Some (DriverError m))" by (rule Get_query_fault)
  show "DriverError m \<noteq> ErrNoRows" by simp
  show "snd (fst (Add d ef lf p)) \<noteq> Some ErrNoRows" by (rule Add_never_ErrNoRows)
  show "snd (GetByClient d qf rf c) \<noteq> Some ErrNoRows" by (rule GetByClient_never_ErrNoRows)
  show "fst (SetStatus d ef n s) \<noteq> Some ErrNoRows" by (rule SetStatus_never_ErrNoRows)
  show "fst (SetAddress d ef n a) \<noteq> Some ErrNoRows" by (rule SetAddress_never_ErrNoRows)
  show "fst (Delete d ef n) \<noteq> Some ErrNoRows" by (rule Delete_never_ErrNoRows)
next
  assume "(\<forall>c\<in>set cs. \<not> keyLost c) \<and> run emptyDB cs = (ns, d') \<and> k \<notin> set ns"
  then show "Get d' None None k = (zeroParcel, Some ErrNoRows)"
    using never_returned_not_stored by blast
qed

theorem Get_not_found_witness:
  "\<not> (\<exists>r\<in>set (parcel demoDB). Number r = 9)
   \<and> Get demoDB None None 9 = (zeroParcel, Some ErrNoRows)
   \<and> \<not> (\<exists>c\<in>set [CallAdd None None getTestParcel, CallAdd (Some ''busy'') None getTestParcel,
                    CallSetStatus None 1 ParcelStatusSent]. keyLost c)
   \<and> run emptyDB [CallAdd None None getTestParcel, CallAdd (Some ''busy'') None getTestParcel,
                   CallSetStatus None 1 ParcelStatusSent]
       = ([1], \<lparr>parcel = [getTestParcel\<lparr>Number := 1, Status := ParcelStatusSent\<rparr>], seq = 1\<rparr>)
   \<and> (2::int) \<notin> set [1]
   \<and> Get \<lparr>parcel = [getTestParcel\<lparr>Number := 1, Status := ParcelStatusSent\<rparr>], seq = 1\<rparr> None None 2
       = (zeroParcel, Some ErrNoRows)"
  using Get_not_found[where d = demoDB and n = 9 and qf = None and rf = None
      and cs = "[CallAdd None None getTestParcel, CallAdd (Some ''busy'') None getTestParcel,
                 CallSetStatus None 1 ParcelStatusSent]"
      and ns = "[1]" and k = 2
      and d' = "\<lparr>parcel = [getTestParcel\<lparr>Number := 1, Status := ParcelStatusSent\<rparr>], seq = 1\<rparr>"]
  by (simp add: model_defs)

theorem never_returned_number_counterexample:
  "run emptyDB [CallAdd None (Some ''no id'') getTestParcel]
     = ([], \<lparr>parcel = [getTestParcel\<lparr>Number := 1\<rparr>], seq = 1\<rparr>)
   \<and> (1::int) \<notin> set (fst (run emptyDB [CallAdd None (Some ''no id'') getTestParcel]))
   \<and> Get (snd (run emptyDB [CallAdd None (Some ''no id'') getTestParcel])) None None 1
       = (getTestParcel\<lparr>Number := 1\<rparr>, None)"
  by (simp add: model_defs)

end
